theory Spec2Isabelle
  imports Main
begin

section \<open>Data model of the playback controller\<close>

text \<open>
  The development embeds \<^verbatim>\<open>src/background/object/controller.ts\<close>. The controller is a
  class with mutable fields; here it is a record that every method takes and returns.
  The listeners (\<^verbatim>\<open>onSongUpdated\<close>, \<^verbatim>\<open>onModeChanged\<close>, \<^verbatim>\<open>onControllerEvent\<close>), the debug
  log and the calls to the collaborators (scrobble manager, scrobble storage, saved edits)
  are recorded, in program order, in the field \<open>effects\<close>. The methods are first
  modelled with every asynchronous method run to completion: an \<^verbatim>\<open>await\<close> yields the
  collaborator's answer at once. The section on asynchronous executions cuts them at
  their awaits.
\<close>

datatype ControllerMode =
  Base | Disabled | Loading | Playing | Scrobbled | Ignored | Unknown | Err | Skipped

datatype ControllerEvent = Reset | SongNowPlaying | SongUnrecognized

datatype LogType = LogLog | LogWarn

datatype LoveStatus = Loved | Unloved

text \<open>
  Modelled from the spec: the class \<^verbatim>\<open>ApiCallResult\<close> is not part of the sources. A
  result is a backend identifier with one of \<open>Ok\<close>, \<open>Ignore\<close>, \<open>Error\<close>.
\<close>

datatype ApiResultType = RESULT_OK | RESULT_IGNORE | RESULT_ERROR

record ApiCallResult =
  resultType :: ApiResultType
  scrobblerId :: string

definition is_result :: "ApiCallResult \<Rightarrow> ApiResultType \<Rightarrow> bool" where
  "is_result r t = (resultType r = t)"

definition getScrobblerId :: "ApiCallResult \<Rightarrow> string" where
  "getScrobblerId r = scrobblerId r"

text \<open>
  Modelled from the spec: \<^verbatim>\<open>isAnyResult\<close> and \<^verbatim>\<open>areAllResults\<close> live in the util module,
  which is not part of the sources: "if any backend result is Ok", "every result is
  Ignore".
\<close>

definition isAnyResult :: "ApiCallResult list \<Rightarrow> ApiResultType \<Rightarrow> bool" where
  "isAnyResult results t = list_ex (\<lambda>r. is_result r t) results"

definition areAllResults :: "ApiCallResult list \<Rightarrow> ApiResultType \<Rightarrow> bool" where
  "areAllResults results t = list_all (\<lambda>r. is_result r t) results"

text \<open>
  A reading (\<^verbatim>\<open>ParsedSongInfo\<close>): the fields the spec lists, \<^verbatim>\<open>null\<close> as \<open>None\<close>, seconds
  as integers.
\<close>

record ParsedSongInfo =
  artist :: "string option"
  track :: "string option"
  album :: "string option"
  uniqueID :: "string option"
  duration :: "int option"
  currentTime :: "int option"
  isPlaying :: bool
  trackArt :: "string option"
  isPodcast :: bool

record SongFlags =
  isValid :: bool
  isMarkedAsPlaying :: bool
  isReadyToScrobble :: bool
  isScrobbled :: bool
  isSkipped :: bool
  isReplaying :: bool

record Song =
  parsed :: ParsedSongInfo
  flags :: SongFlags
  userloved :: "LoveStatus option"

record EditedSongInfo =
  editedArtist :: "string option"
  editedTrack :: "string option"
  editedAlbum :: "string option"

text \<open>
  Modelled from the spec: the class \<^verbatim>\<open>Song\<close> is not part of the sources. A new track
  mirrors the reading and has every flag down; it is valid when its \<open>isValid\<close> flag is
  up; its duration is the last known (parsed) one; the information sent to the
  collaborators is its parsed fields; the love status touches neither the parsed fields
  nor the flags.
\<close>

definition Song_new :: "ParsedSongInfo \<Rightarrow> Song" where
  "Song_new state =
     \<lparr>parsed = state,
      flags = \<lparr>isValid = False, isMarkedAsPlaying = False, isReadyToScrobble = False,
               isScrobbled = False, isSkipped = False, isReplaying = False\<rparr>,
      userloved = None\<rparr>"

definition Song_isValid :: "Song \<Rightarrow> bool" where
  "Song_isValid sg = isValid (flags sg)"

definition Song_getDuration :: "Song \<Rightarrow> int option" where
  "Song_getDuration sg = duration (parsed sg)"

definition Song_getInfo :: "Song \<Rightarrow> ParsedSongInfo" where
  "Song_getInfo sg = parsed sg"

definition Song_setLoveStatus :: "LoveStatus \<Rightarrow> Song \<Rightarrow> Song" where
  "Song_setLoveStatus loveStatus sg = sg\<lparr>userloved := Some loveStatus\<rparr>"

subsection \<open>Countdown timer\<close>

text \<open>
  Modelled from the spec: the class \<^verbatim>\<open>Timer\<close> is not part of the sources. Its state is
  the elapsed accrual, the optional target, the paused flag and the scheduled callback.
  \<open>start\<close> arms the timer with no target yet and schedules the callback; \<open>pause\<close> and
  \<open>resume\<close> only switch the accrual; \<open>update\<close> sets the target, or clears it, and
  does not resume a paused timer; \<open>reset\<close> clears elapsed time, target and callback;
  \<open>isExpired\<close> reports whether the target has been reached.
\<close>

datatype TimerCallback = OnPlaybackTimerExpired | OnReplayTimerExpired

record Timer =
  elapsed :: int
  target :: "int option"
  paused :: bool
  callback :: "TimerCallback option"

definition Timer_new :: Timer where
  "Timer_new = \<lparr>elapsed = 0, target = None, paused = False, callback = None\<rparr>"

definition Timer_reset :: "Timer \<Rightarrow> Timer" where
  "Timer_reset t = \<lparr>elapsed = 0, target = None, paused = False, callback = None\<rparr>"

definition Timer_start :: "TimerCallback \<Rightarrow> Timer \<Rightarrow> Timer" where
  "Timer_start cb t = (Timer_reset t)\<lparr>callback := Some cb\<rparr>"

definition Timer_pause :: "Timer \<Rightarrow> Timer" where
  "Timer_pause t = t\<lparr>paused := True\<rparr>"

definition Timer_resume :: "Timer \<Rightarrow> Timer" where
  "Timer_resume t = t\<lparr>paused := False\<rparr>"

definition Timer_update :: "int option \<Rightarrow> Timer \<Rightarrow> Timer" where
  "Timer_update seconds t = t\<lparr>target := seconds\<rparr>"

definition Timer_isExpired :: "Timer \<Rightarrow> bool" where
  "Timer_isExpired t = (case target t of None \<Rightarrow> False | Some d \<Rightarrow> d \<le> elapsed t)"

definition Timer_getElapsed :: "Timer \<Rightarrow> int" where
  "Timer_getElapsed t = elapsed t"

text \<open>Time passing: a started timer that is not paused accrues the seconds.\<close>

definition Timer_advance :: "nat \<Rightarrow> Timer \<Rightarrow> Timer" where
  "Timer_advance n t =
     (if callback t \<noteq> None \<and> \<not> paused t then t\<lparr>elapsed := elapsed t + int n\<rparr> else t)"

subsection \<open>Collaborators and options\<close>

text \<open>
  The pipeline, the scrobble manager, the options and the util module are not part of
  the sources; the controller only calls them. They are parameters: what the pipeline
  does to a track, what the backends answer, whether the love request is rejected, the
  bound backends, the \<^verbatim>\<open>SCROBBLE_PERCENT\<close> option, the util function
  \<^verbatim>\<open>getSecondsToScrobble(duration, percent)\<close> (\<open>-1\<close> when the track never qualifies),
  the util predicate \<^verbatim>\<open>isStateEmpty\<close>, and the two \<^verbatim>\<open>Song\<close> methods \<^verbatim>\<open>resetInfo\<close> and
  \<^verbatim>\<open>resetData\<close>.
\<close>

record Env =
  Pipeline_process :: "Song \<Rightarrow> Song"
  ScrobbleManager_sendNowPlaying :: "ParsedSongInfo \<Rightarrow> ApiCallResult list"
  ScrobbleManager_scrobble :: "ParsedSongInfo \<Rightarrow> ApiCallResult list"
  ScrobbleManager_toggleLoveRejected :: "ParsedSongInfo \<Rightarrow> LoveStatus \<Rightarrow> bool"
  ScrobbleManager_getBoundScrobblerIds :: "string list"
  option_SCROBBLE_PERCENT :: int
  util_getSecondsToScrobble :: "int option \<Rightarrow> int \<Rightarrow> int"
  util_isStateEmpty :: "ParsedSongInfo \<Rightarrow> bool"
  Song_resetInfo :: "Song \<Rightarrow> Song"
  Song_resetData :: "Song \<Rightarrow> Song"

subsection \<open>Effects, errors and the controller\<close>

datatype Effect =
  ModeChanged ControllerMode
| SongUpdated
| ControllerEventDispatched ControllerEvent
| DebugLog int string LogType
| SendNowPlayingCall ParsedSongInfo
| ScrobbleCall ParsedSongInfo
| ToggleLoveCall ParsedSongInfo LoveStatus
| ScrobbleStorage_addSong ParsedSongInfo "string list"
| SavedEdits_saveSongInfo Song EditedSongInfo
| SavedEdits_removeSongInfo Song

text \<open>
  \<open>Error\<close> is a \<^verbatim>\<open>throw new Error(message)\<close> of the controller, \<open>TypeError\<close> the
  dereference of a \<^verbatim>\<open>null\<close> current song, \<open>Rejected\<close> a rejected love request.
\<close>

datatype error = Error string | TypeError | Rejected

record Controller =
  mode :: ControllerMode
  tabId :: int
  connector :: string
  currentSong :: "Song option"
  playbackTimer :: Timer
  replayDetectionTimer :: Timer
  isReplayingSong :: bool
  isControllerEnabled :: bool
  shouldScrobblePodcasts :: bool
  effects :: "Effect list"

definition fieldsToCheckSongChange :: "(ParsedSongInfo \<Rightarrow> string option) list" where
  "fieldsToCheckSongChange = [artist, track, album, uniqueID]"

definition andThen :: "error + 'a \<Rightarrow> ('a \<Rightarrow> error + 'b) \<Rightarrow> error + 'b" where
  "andThen r f = (case r of Inl e \<Rightarrow> Inl e | Inr x \<Rightarrow> f x)"

definition withSong :: "Controller \<Rightarrow> (Song \<Rightarrow> error + 'a) \<Rightarrow> error + 'a" where
  "withSong s f = (case currentSong s of None \<Rightarrow> Inl TypeError | Some sg \<Rightarrow> f sg)"

definition emit :: "Effect \<Rightarrow> Controller \<Rightarrow> Controller" where
  "emit x s = s\<lparr>effects := effects s @ [x]\<rparr>"

section \<open>The controller's methods\<close>

definition Controller_new :: "int \<Rightarrow> string \<Rightarrow> bool \<Rightarrow> bool \<Rightarrow> Controller" where
  "Controller_new tab conn isEnabled scrobblePodcasts =
     \<lparr>mode = (if isEnabled then Base else Disabled),
      tabId = tab,
      connector = conn,
      currentSong = None,
      playbackTimer = Timer_new,
      replayDetectionTimer = Timer_new,
      isReplayingSong = False,
      isControllerEnabled = isEnabled,
      shouldScrobblePodcasts = scrobblePodcasts,
      effects = [DebugLog tab ''Created controller'' LogLog]\<rparr>"

definition debugLog :: "string \<Rightarrow> LogType \<Rightarrow> Controller \<Rightarrow> Controller" where
  "debugLog text logType s = emit (DebugLog (tabId s) text logType) s"

definition onSongUpdated :: "Controller \<Rightarrow> Controller" where
  "onSongUpdated s = emit SongUpdated s"

definition setMode :: "ControllerMode \<Rightarrow> Controller \<Rightarrow> Controller" where
  "setMode m s = emit (ModeChanged m) (s\<lparr>mode := m\<rparr>)"

definition dispatchEvent :: "ControllerEvent \<Rightarrow> Controller \<Rightarrow> Controller" where
  "dispatchEvent ev s = emit (ControllerEventDispatched ev) s"

definition resetState :: "Controller \<Rightarrow> Controller" where
  "resetState s =
     (dispatchEvent Reset s)
       \<lparr>currentSong := None,
        playbackTimer := Timer_reset (playbackTimer s),
        replayDetectionTimer := Timer_reset (replayDetectionTimer s)\<rparr>"

definition reset :: "Controller \<Rightarrow> Controller" where
  "reset s = setMode Base (resetState s)"

definition assertSongIsPlaying :: "Controller \<Rightarrow> error + Controller" where
  "assertSongIsPlaying s =
     (if currentSong s = None then Inl (Error ''No song is now playing'') else Inr s)"

definition getSecondsToScrobble :: "Env \<Rightarrow> int option \<Rightarrow> int" where
  "getSecondsToScrobble env d = util_getSecondsToScrobble env d (option_SCROBBLE_PERCENT env)"

definition isSongChanged :: "ParsedSongInfo \<Rightarrow> Controller \<Rightarrow> bool" where
  "isSongChanged newState s =
     (case currentSong s of
        None \<Rightarrow> True
      | Some sg \<Rightarrow> list_ex (\<lambda>field. field newState \<noteq> field (parsed sg)) fieldsToCheckSongChange)"

text \<open>
  \<^verbatim>\<open>newState.duration && ...\<close>: a \<^verbatim>\<open>null\<close> duration and the duration \<open>0\<close> are falsy.
\<close>

definition isNeedToUpdateDuration :: "ParsedSongInfo \<Rightarrow> Song \<Rightarrow> bool" where
  "isNeedToUpdateDuration newState sg =
     (case duration newState of
        None \<Rightarrow> False
      | Some d \<Rightarrow> d \<noteq> 0 \<and> duration (parsed sg) \<noteq> Some d)"

text \<open>
  An array, even an empty one, is truthy: only a missing argument (\<open>None\<close>) is replaced
  by the bound backends.
\<close>

definition addSongToScrobbleStorage :: "Env \<Rightarrow> string list option \<Rightarrow> Controller \<Rightarrow> error + Controller" where
  "addSongToScrobbleStorage env scrobblerIds s =
     (let ids = (case scrobblerIds of
                   None \<Rightarrow> ScrobbleManager_getBoundScrobblerIds env
                 | Some given \<Rightarrow> given)
      in withSong s (\<lambda>sg. Inr (emit (ScrobbleStorage_addSong (Song_getInfo sg) ids) s)))"

definition isNeedToAddSongToScrobbleStorage :: "Env \<Rightarrow> Controller \<Rightarrow> bool" where
  "isNeedToAddSongToScrobbleStorage env s =
     (case currentSong s of
        None \<Rightarrow> False
      | Some sg \<Rightarrow>
          if \<not> Song_isValid sg then
            (let secondsToScrobble = getSecondsToScrobble env (Song_getDuration sg) in
             if secondsToScrobble \<noteq> - 1
             then secondsToScrobble \<le> Timer_getElapsed (playbackTimer s)
             else False)
          else False)"

definition updateTimers :: "Env \<Rightarrow> int option \<Rightarrow> Controller \<Rightarrow> Controller" where
  "updateTimers env d s =
     (if Timer_isExpired (playbackTimer s) then
        debugLog ''Attempt to update expired timers'' LogWarn s
      else
        (let secondsToScrobble = getSecondsToScrobble env d in
         if secondsToScrobble \<noteq> - 1 then
           debugLog ''The song will be repeated'' LogLog
             (debugLog ''The song will be scrobbled'' LogLog
               (s\<lparr>playbackTimer := Timer_update (Some secondsToScrobble) (playbackTimer s),
                  replayDetectionTimer := Timer_update d (replayDetectionTimer s)\<rparr>))
         else debugLog ''The song is too short to scrobble'' LogLog s))"

definition updateSongDuration :: "Env \<Rightarrow> int \<Rightarrow> Controller \<Rightarrow> error + Controller" where
  "updateSongDuration env d s =
     (let s1 = debugLog ''Update duration'' LogLog s in
      withSong s1 (\<lambda>sg.
        let sg1 = sg\<lparr>parsed := (parsed sg)\<lparr>duration := Some d\<rparr>\<rparr>;
            s2 = s1\<lparr>currentSong := Some sg1\<rparr>
        in if Song_isValid sg1 then Inr (updateTimers env (Some d) s2) else Inr s2))"

definition setSongNowPlaying :: "Env \<Rightarrow> Controller \<Rightarrow> error + Controller" where
  "setSongNowPlaying env s =
     withSong s (\<lambda>sg.
       let sg1 = sg\<lparr>flags := (flags sg)\<lparr>isMarkedAsPlaying := True\<rparr>\<rparr>;
           s1 = emit (SendNowPlayingCall (Song_getInfo sg1)) (s\<lparr>currentSong := Some sg1\<rparr>);
           results = ScrobbleManager_sendNowPlaying env (Song_getInfo sg1);
           s2 = (if isAnyResult results RESULT_OK
                 then setMode Playing (debugLog ''Song set as now playing'' LogLog s1)
                 else setMode Err (debugLog ''Song isn't set as now playing'' LogLog s1))
       in Inr (dispatchEvent SongNowPlaying s2))"

definition setSongNotRecognized :: "Controller \<Rightarrow> Controller" where
  "setSongNotRecognized s = dispatchEvent SongUnrecognized (setMode Unknown s)"

definition scrobbleSong :: "Env \<Rightarrow> Controller \<Rightarrow> error + Controller" where
  "scrobbleSong env s =
     withSong s (\<lambda>sg.
       let results = ScrobbleManager_scrobble env (Song_getInfo sg);
           s1 = emit (ScrobbleCall (Song_getInfo sg)) s;
           failedScrobblerIds =
             map getScrobblerId (filter (\<lambda>result. \<not> is_result result RESULT_OK) results);
           isAnyOkResult = (length failedScrobblerIds < length results);
           s2 = (if isAnyOkResult then
                   onSongUpdated
                     (setMode Scrobbled
                       ((debugLog ''Scrobbled successfully'' LogLog s1)
                          \<lparr>currentSong := Some (sg\<lparr>flags := (flags sg)\<lparr>isScrobbled := True\<rparr>\<rparr>)\<rparr>))
                 else if areAllResults results RESULT_IGNORE then
                   setMode Ignored (debugLog ''Song is ignored by service'' LogLog s1)
                 else
                   setMode Err (debugLog ''Scrobbling failed'' LogWarn s1))
       in if 0 < length failedScrobblerIds
          then addSongToScrobbleStorage env (Some failedScrobblerIds) s2
          else Inr s2)"

definition skipCurrentSong :: "Controller \<Rightarrow> error + Controller" where
  "skipCurrentSong s =
     andThen (assertSongIsPlaying s) (\<lambda>s0.
       let s1 = setMode Skipped s0 in
       withSong s1 (\<lambda>sg.
         Inr (onSongUpdated
               (s1\<lparr>currentSong := Some (sg\<lparr>flags := (flags sg)\<lparr>isSkipped := True\<rparr>\<rparr>)\<rparr>))))"

definition processNewState :: "ParsedSongInfo \<Rightarrow> Controller \<Rightarrow> Controller" where
  "processNewState state s =
     (let s1 = resetState s;
          s2 = s1\<lparr>currentSong :=
                    Some ((Song_new state)
                            \<lparr>flags := (flags (Song_new state))\<lparr>isReplaying := isReplayingSong s1\<rparr>\<rparr>)\<rparr>;
          s3 = debugLog ''New song detected'' LogLog s2;
          s4 = s3\<lparr>playbackTimer := Timer_start OnPlaybackTimerExpired (playbackTimer s3)\<rparr>;
          s5 = s4\<lparr>replayDetectionTimer := Timer_start OnReplayTimerExpired (replayDetectionTimer s4)\<rparr>;
          s6 = s5\<lparr>isReplayingSong := False\<rparr>
      in if \<not> isPlaying state
         then s6\<lparr>playbackTimer := Timer_pause (playbackTimer s6),
                 replayDetectionTimer := Timer_pause (replayDetectionTimer s6)\<rparr>
         else s6)"

definition processSong :: "Env \<Rightarrow> Controller \<Rightarrow> error + Controller" where
  "processSong env s =
     (let s1 = setMode Loading s in
      withSong s1 (\<lambda>sg.
        let sg1 = Pipeline_process env sg;
            s2 = debugLog ''Song finished processing'' LogLog (s1\<lparr>currentSong := Some sg1\<rparr>)
        in if Song_isValid sg1 then
             (let sg2 = sg1\<lparr>flags := (flags sg1)\<lparr>isMarkedAsPlaying := False\<rparr>\<rparr>;
                  s3 = updateTimers env (Song_getDuration sg2) (s2\<lparr>currentSong := Some sg2\<rparr>)
              in if \<not> shouldScrobblePodcasts s3 \<and> isPodcast (parsed sg2) then
                   skipCurrentSong s3
                 else if isPlaying (parsed sg2) then
                   (if \<not> Timer_isExpired (playbackTimer s3)
                    then andThen (setSongNowPlaying env s3) (\<lambda>s4. Inr (onSongUpdated s4))
                    else Inr (onSongUpdated (dispatchEvent SongNowPlaying s3)))
                 else Inr (onSongUpdated (setMode Base s3)))
           else Inr (onSongUpdated (setSongNotRecognized s2))))"

definition unprocessSong :: "Env \<Rightarrow> Controller \<Rightarrow> error + Controller" where
  "unprocessSong env s =
     withSong s (\<lambda>sg.
       let s1 = debugLog ''Song unprocessed'' LogLog s;
           s2 = debugLog ''Clearing playback timer destination time'' LogLog s1
       in Inr (s2\<lparr>currentSong := Some (Song_resetData env sg),
                  playbackTimer := Timer_update None (playbackTimer s2),
                  replayDetectionTimer := Timer_update None (replayDetectionTimer s2)\<rparr>))"

definition onPlayingStateChanged :: "Env \<Rightarrow> bool \<Rightarrow> Controller \<Rightarrow> error + Controller" where
  "onPlayingStateChanged env val s =
     (let s1 = debugLog ''isPlaying state changed'' LogLog s in
      if val then
        (let s2 = s1\<lparr>playbackTimer := Timer_resume (playbackTimer s1),
                     replayDetectionTimer := Timer_resume (replayDetectionTimer s1)\<rparr>
         in withSong s2 (\<lambda>sg.
              if \<not> isMarkedAsPlaying (flags sg) \<and> Song_isValid sg
              then setSongNowPlaying env s2
              else Inr (setMode (mode s2) s2)))
      else
        Inr (s1\<lparr>playbackTimer := Timer_pause (playbackTimer s1),
                replayDetectionTimer := Timer_pause (replayDetectionTimer s1)\<rparr>))"

definition processCurrentState :: "Env \<Rightarrow> ParsedSongInfo \<Rightarrow> Controller \<Rightarrow> error + Controller" where
  "processCurrentState env newState s =
     withSong s (\<lambda>sg.
       if isSkipped (flags sg) then Inr s
       else
         (let isPlayingStateChanged = (isPlaying (parsed sg) \<noteq> isPlaying newState);
              sg1 = sg\<lparr>parsed := (parsed sg)\<lparr>currentTime := currentTime newState,
                                               isPlaying := isPlaying newState,
                                               trackArt := trackArt newState\<rparr>\<rparr>;
              s1 = s\<lparr>currentSong := Some sg1\<rparr>
          in andThen
               (if isNeedToUpdateDuration newState sg1
                then (case duration newState of
                        Some d \<Rightarrow> updateSongDuration env d s1
                      | None \<Rightarrow> Inr s1)
                else Inr s1)
               (\<lambda>s2. if isPlayingStateChanged
                      then onPlayingStateChanged env (isPlaying newState) s2
                      else Inr s2)))"

definition processEmptyState :: "Env \<Rightarrow> ParsedSongInfo \<Rightarrow> Controller \<Rightarrow> error + Controller" where
  "processEmptyState env state s =
     andThen
       (if currentSong s \<noteq> None then
          (let s1 = debugLog ''Received empty state - resetting'' LogLog s in
           andThen
             (if isNeedToAddSongToScrobbleStorage env s1
              then addSongToScrobbleStorage env None s1
              else Inr s1)
             (\<lambda>s2. Inr (reset s2)))
        else Inr s)
       (\<lambda>s3. if isPlaying state
              then Inr (debugLog
                          ''State from connector doesn't contain enough information about the playing track''
                          LogWarn s3)
              else Inr s3)"

definition processStateChange :: "Env \<Rightarrow> ParsedSongInfo \<Rightarrow> Controller \<Rightarrow> error + Controller" where
  "processStateChange env state s =
     (if \<not> isControllerEnabled s then Inr s
      else if util_isStateEmpty env state then processEmptyState env state s
      else if isSongChanged state s \<or> isReplayingSong s then
        (if isPlaying state then
           andThen
             (if isNeedToAddSongToScrobbleStorage env s
              then addSongToScrobbleStorage env None s
              else Inr s)
             (\<lambda>s1. processSong env (processNewState state s1))
         else Inr (reset s))
      else processCurrentState env state s)"

definition setEnabled :: "bool \<Rightarrow> Controller \<Rightarrow> Controller" where
  "setEnabled flag s =
     (let s1 = s\<lparr>isControllerEnabled := flag\<rparr> in
      if flag then setMode Base s1 else setMode Disabled (resetState s1))"

definition finish :: "Controller \<Rightarrow> Controller" where
  "finish s = resetState (debugLog ''Remove controller'' LogLog s)"

definition resetSongData :: "Env \<Rightarrow> Controller \<Rightarrow> error + Controller" where
  "resetSongData env s =
     andThen (assertSongIsPlaying s) (\<lambda>s0.
       withSong s0 (\<lambda>sg.
         let sg1 = Song_resetInfo env sg;
             s1 = emit (SavedEdits_removeSongInfo sg1) (s0\<lparr>currentSong := Some sg1\<rparr>)
         in andThen (unprocessSong env s1) (processSong env)))"

definition setUserSongData :: "Env \<Rightarrow> EditedSongInfo \<Rightarrow> Controller \<Rightarrow> error + Controller" where
  "setUserSongData env dat s =
     andThen (assertSongIsPlaying s) (\<lambda>s0.
       withSong s0 (\<lambda>sg.
         if isScrobbled (flags sg) then Inl (Error ''Unable to set user data for scrobbled song'')
         else
           (let s1 = emit (SavedEdits_saveSongInfo sg dat) s0
            in andThen (unprocessSong env s1) (processSong env))))"

definition toggleLove :: "Env \<Rightarrow> LoveStatus \<Rightarrow> Controller \<Rightarrow> error + Controller" where
  "toggleLove env loveStatus s =
     andThen (assertSongIsPlaying s) (\<lambda>s0.
       withSong s0 (\<lambda>sg.
         if \<not> Song_isValid sg then Inl (Error ''No valid song is now playing'')
         else if ScrobbleManager_toggleLoveRejected env (Song_getInfo sg) loveStatus
         then Inl Rejected
         else
           (let s1 = emit (ToggleLoveCall (Song_getInfo sg) loveStatus) s0
            in Inr (onSongUpdated
                      (s1\<lparr>currentSong := Some (Song_setLoveStatus loveStatus sg)\<rparr>)))))"

definition onPlaybackTimerExpired :: "Env \<Rightarrow> Controller \<Rightarrow> error + Controller" where
  "onPlaybackTimerExpired env s =
     (let s1 = debugLog ''Mark song as ready to scrobble'' LogLog s in
      withSong s1 (\<lambda>sg.
        let s2 = s1\<lparr>currentSong := Some (sg\<lparr>flags := (flags sg)\<lparr>isReadyToScrobble := True\<rparr>\<rparr>)\<rparr>
        in if isSkipped (flags sg) then Inr s2 else scrobbleSong env s2))"

definition onReplayTimerExpired :: "Controller \<Rightarrow> Controller" where
  "onReplayTimerExpired s =
     (debugLog ''Mark song as replaying'' LogLog s)\<lparr>isReplayingSong := True\<rparr>"

section \<open>Executions\<close>

text \<open>
  What can happen to a controller: a call of one of its public methods, one of its two
  timers firing its scheduled callback, and time passing. A timer fires only while its
  callback is scheduled and its target is reached.
\<close>

datatype Event =
  ProcessStateChange ParsedSongInfo
| SetEnabled bool
| Finish
| ResetSongData
| SkipCurrentSong
| SetUserSongData EditedSongInfo
| ToggleLove LoveStatus
| PlaybackTimerFires
| ReplayTimerFires
| Tick nat

fun step :: "Env \<Rightarrow> Controller \<Rightarrow> Event \<Rightarrow> error + Controller" where
  "step env s (ProcessStateChange state) = processStateChange env state s"
| "step env s (SetEnabled flag) = Inr (setEnabled flag s)"
| "step env s Finish = Inr (finish s)"
| "step env s ResetSongData = resetSongData env s"
| "step env s SkipCurrentSong = skipCurrentSong s"
| "step env s (SetUserSongData dat) = setUserSongData env dat s"
| "step env s (ToggleLove loveStatus) = toggleLove env loveStatus s"
| "step env s PlaybackTimerFires =
     (if callback (playbackTimer s) = Some OnPlaybackTimerExpired
         \<and> Timer_isExpired (playbackTimer s)
      then onPlaybackTimerExpired env s else Inr s)"
| "step env s ReplayTimerFires =
     (if callback (replayDetectionTimer s) = Some OnReplayTimerExpired
         \<and> Timer_isExpired (replayDetectionTimer s)
      then Inr (onReplayTimerExpired s) else Inr s)"
| "step env s (Tick n) =
     Inr (s\<lparr>playbackTimer := Timer_advance n (playbackTimer s),
            replayDetectionTimer := Timer_advance n (replayDetectionTimer s)\<rparr>)"

text \<open>
  An operation that throws leaves the controller as it was: every \<^verbatim>\<open>throw\<close> of the
  source precedes the first assignment of its method.
\<close>

definition after :: "Env \<Rightarrow> Controller \<Rightarrow> Event \<Rightarrow> Controller" where
  "after env s e = (case step env s e of Inl err \<Rightarrow> s | Inr s' \<Rightarrow> s')"

fun run :: "Controller \<Rightarrow> (Env \<times> Event) list \<Rightarrow> Controller" where
  "run s [] = s"
| "run s ((env, e) # es) = run (after env s e) es"

text \<open>The state an operation leaves: the controller itself when the operation throws.\<close>

definition stateOr :: "Controller \<Rightarrow> error + Controller \<Rightarrow> Controller" where
  "stateOr s r = (case r of Inl err \<Rightarrow> s | Inr s' \<Rightarrow> s')"

fun isAnnounce :: "Effect \<Rightarrow> bool" where
  "isAnnounce (SendNowPlayingCall info) = True"
| "isAnnounce other = False"

definition announceCalls :: "Effect list \<Rightarrow> Effect list" where
  "announceCalls effs = filter isAnnounce effs"

fun isStorageAdd :: "Effect \<Rightarrow> bool" where
  "isStorageAdd (ScrobbleStorage_addSong info ids) = True"
| "isStorageAdd other = False"

definition storageAdds :: "Effect list \<Rightarrow> Effect list" where
  "storageAdds effs = filter isStorageAdd effs"

fun isDispatch :: "Effect \<Rightarrow> bool" where
  "isDispatch (ControllerEventDispatched ev) = True"
| "isDispatch other = False"

definition dispatchedEvents :: "Effect list \<Rightarrow> Effect list" where
  "dispatchedEvents effs = filter isDispatch effs"

subsection \<open>The words of the submit rule\<close>

text \<open>
  The source calls failed every result that is not \<open>Ok\<close>; these are the two counts and
  the list of failed backends of its submit action.
\<close>

definition failedCount :: "ApiCallResult list \<Rightarrow> nat" where
  "failedCount results = length (filter (\<lambda>r. \<not> is_result r RESULT_OK) results)"

definition nonFailedCount :: "ApiCallResult list \<Rightarrow> nat" where
  "nonFailedCount results = length (filter (\<lambda>r. is_result r RESULT_OK) results)"

definition failedIds :: "ApiCallResult list \<Rightarrow> string list" where
  "failedIds results = map getScrobblerId (filter (\<lambda>r. \<not> is_result r RESULT_OK) results)"

definition errorIds :: "ApiCallResult list \<Rightarrow> string list" where
  "errorIds results = map getScrobblerId (filter (\<lambda>r. is_result r RESULT_ERROR) results)"

section \<open>Asynchronous executions\<close>

text \<open>
  The methods above run every asynchronous method to completion. In the source an
  \<^verbatim>\<open>async\<close> method runs up to its first \<^verbatim>\<open>await\<close> and leaves a continuation, and any
  other event may come before the continuation runs. Here each method is cut at its
  awaits: the part before an \<^verbatim>\<open>await\<close> records what is pending, and the part after it is
  run by a later event, on the controller as it is then.

  The \<^verbatim>\<open>Song\<close> objects are numbered in the order of their construction;
  \<open>generation\<close> is the number of the last one, which is the current song unless the
  song is cleared. The pipeline mutates the object it was given: what it does is taken
  to happen when its run resumes, and is seen on the current song only if that is still
  the object of the run. An error thrown is added to \<open>failures\<close>; what the method did
  before the throw stands.
\<close>

datatype Pending =
  PipelineRun nat
| NowPlayingSent ParsedSongInfo
| ScrobbleSent ParsedSongInfo
| LoveSent ParsedSongInfo LoveStatus
| EditsRemoved
| EditsSaved
| SongStoredForNewState ParsedSongInfo
| SongStoredForEmptyState ParsedSongInfo

record AsyncController =
  base :: Controller
  generation :: nat
  pending :: "Pending list"
  failures :: "error list"


definition onBase :: "(Controller \<Rightarrow> Controller) \<Rightarrow> AsyncController \<Rightarrow> AsyncController" where
  "onBase f a = a\<lparr>base := f (base a)\<rparr>"

definition suspend :: "Pending \<Rightarrow> AsyncController \<Rightarrow> AsyncController" where
  "suspend p a = a\<lparr>pending := pending a @ [p]\<rparr>"

definition failWith :: "error \<Rightarrow> AsyncController \<Rightarrow> AsyncController" where
  "failWith e a = a\<lparr>failures := failures a @ [e]\<rparr>"



























subsection \<open>What takes the announce latch down\<close>



text \<open>The current track, if there is one, is marked as playing or not valid.\<close>

definition announced_or_invalid :: "Controller \<Rightarrow> bool" where
  "announced_or_invalid s =
     (case currentSong s of
        None \<Rightarrow> True
      | Some sg \<Rightarrow> isMarkedAsPlaying (flags sg) \<or> \<not> Song_isValid sg)"

section \<open>Example inputs\<close>

definition okResult :: "string \<Rightarrow> ApiCallResult" where
  "okResult name = \<lparr>resultType = RESULT_OK, scrobblerId = name\<rparr>"

definition ignoreResult :: "string \<Rightarrow> ApiCallResult" where
  "ignoreResult name = \<lparr>resultType = RESULT_IGNORE, scrobblerId = name\<rparr>"

definition errorResult :: "string \<Rightarrow> ApiCallResult" where
  "errorResult name = \<lparr>resultType = RESULT_ERROR, scrobblerId = name\<rparr>"

definition acceptSong :: "Song \<Rightarrow> Song" where
  "acceptSong sg = sg\<lparr>flags := (flags sg)\<lparr>isValid := True\<rparr>\<rparr>"

definition sameSong :: "Song \<Rightarrow> Song" where
  "sameSong sg = sg"

definition clearSong :: "Song \<Rightarrow> Song" where
  "clearSong sg = Song_new (parsed sg)"

definition exampleSecondsToScrobble :: "int option \<Rightarrow> int \<Rightarrow> int" where
  "exampleSecondsToScrobble d percent =
     (case d of
        None \<Rightarrow> 30
      | Some x \<Rightarrow> if x < 30 then - 1 else min 240 ((x * percent) div 100))"

definition exampleIsStateEmpty :: "ParsedSongInfo \<Rightarrow> bool" where
  "exampleIsStateEmpty state =
     (artist state = None \<and> track state = None \<and> uniqueID state = None)"

definition oneOk :: "ParsedSongInfo \<Rightarrow> ApiCallResult list" where
  "oneOk info = [okResult ''lastfm'']"

definition oneOkTwoErrors :: "ParsedSongInfo \<Rightarrow> ApiCallResult list" where
  "oneOkTwoErrors info = [okResult ''lastfm'', errorResult ''librefm'', errorResult ''listenbrainz'']"

definition oneIgnore :: "ParsedSongInfo \<Rightarrow> ApiCallResult list" where
  "oneIgnore info = [ignoreResult ''lastfm'']"

definition oneError :: "ParsedSongInfo \<Rightarrow> ApiCallResult list" where
  "oneError info = [errorResult ''lastfm'']"

definition neverRejected :: "ParsedSongInfo \<Rightarrow> LoveStatus \<Rightarrow> bool" where
  "neverRejected info loveStatus = False"

definition exampleEnv :: Env where
  "exampleEnv =
     \<lparr>Pipeline_process = acceptSong,
      ScrobbleManager_sendNowPlaying = oneOk,
      ScrobbleManager_scrobble = oneOk,
      ScrobbleManager_toggleLoveRejected = neverRejected,
      ScrobbleManager_getBoundScrobblerIds = [''lastfm''],
      option_SCROBBLE_PERCENT = 50,
      util_getSecondsToScrobble = exampleSecondsToScrobble,
      util_isStateEmpty = exampleIsStateEmpty,
      Song_resetInfo = sameSong,
      Song_resetData = clearSong\<rparr>"

definition partialFailureEnv :: Env where
  "partialFailureEnv = exampleEnv\<lparr>ScrobbleManager_scrobble := oneOkTwoErrors\<rparr>"

definition ignoringEnv :: Env where
  "ignoringEnv = exampleEnv\<lparr>ScrobbleManager_scrobble := oneIgnore\<rparr>"

definition failingEnv :: Env where
  "failingEnv = exampleEnv\<lparr>ScrobbleManager_scrobble := oneError\<rparr>"

definition unrecognizingEnv :: Env where
  "unrecognizingEnv = exampleEnv\<lparr>Pipeline_process := sameSong\<rparr>"

definition exampleReading :: ParsedSongInfo where
  "exampleReading =
     \<lparr>artist = Some ''Artist'', track = Some ''Track'', album = None, uniqueID = None,
      duration = Some 240, currentTime = Some 0, isPlaying = True, trackArt = None,
      isPodcast = False\<rparr>"

definition laterReading :: ParsedSongInfo where
  "laterReading = exampleReading\<lparr>currentTime := Some 5\<rparr>"

definition longerReading :: ParsedSongInfo where
  "longerReading = exampleReading\<lparr>duration := Some 300\<rparr>"

definition zeroReading :: ParsedSongInfo where
  "zeroReading = exampleReading\<lparr>duration := Some 0\<rparr>"

definition shortReading :: ParsedSongInfo where
  "shortReading = exampleReading\<lparr>duration := Some 10\<rparr>"


definition otherReading :: ParsedSongInfo where
  "otherReading = exampleReading\<lparr>track := Some ''Other'', currentTime := Some 7\<rparr>"

definition emptyReading :: ParsedSongInfo where
  "emptyReading =
     \<lparr>artist = None, track = None, album = None, uniqueID = None,
      duration = None, currentTime = None, isPlaying = True, trackArt = None,
      isPodcast = False\<rparr>"

definition exampleEdits :: EditedSongInfo where
  "exampleEdits = \<lparr>editedArtist = Some ''Artist'', editedTrack = Some ''Other'', editedAlbum = None\<rparr>"

definition freshController :: Controller where
  "freshController = Controller_new 1 ''connector'' True True"

text \<open>A controller that has taken \<open>exampleReading\<close>: the track is valid and announced.\<close>

definition playingController :: Controller where
  "playingController = after exampleEnv freshController (ProcessStateChange exampleReading)"

text \<open>The same after 130 seconds: the playback timer, whose target is 120, is expired.\<close>

definition expiredController :: Controller where
  "expiredController = after exampleEnv playingController (Tick 130)"

text \<open>A controller whose track the pipeline did not recognize, 130 seconds later.\<close>

definition unrecognizedController :: Controller where
  "unrecognizedController =
     after unrecognizingEnv
       (after unrecognizingEnv freshController (ProcessStateChange exampleReading)) (Tick 130)"

definition skippedController :: Controller where
  "skippedController = after exampleEnv playingController SkipCurrentSong"

text \<open>The expired playback timer has fired: every backend accepted, or every backend failed.\<close>

definition scrobbledController :: Controller where
  "scrobbledController = after exampleEnv expiredController PlaybackTimerFires"

definition failedController :: Controller where
  "failedController = after failingEnv expiredController PlaybackTimerFires"

text \<open>The track of \<open>playingController\<close>.\<close>

definition announcedSong :: Song where
  "announcedSong =
     \<lparr>parsed = exampleReading,
      flags = \<lparr>isValid = True, isMarkedAsPlaying = True, isReadyToScrobble = False,
               isScrobbled = False, isSkipped = False, isReplaying = False\<rparr>,
      userloved = None\<rparr>"

subsection \<open>Asynchronous examples\<close>







section \<open>Basic facts\<close>

lemmas timer_defs = Timer_new_def Timer_reset_def Timer_start_def Timer_pause_def Timer_resume_def
  Timer_update_def Timer_isExpired_def Timer_getElapsed_def Timer_advance_def

lemmas song_defs = Song_new_def Song_isValid_def Song_getDuration_def Song_getInfo_def Song_setLoveStatus_def

lemmas seq_defs = andThen_def withSong_def

lemma announceCalls_simps [simp]:
  "announceCalls [] = []"
  "announceCalls (x # xs) = (if isAnnounce x then x # announceCalls xs else announceCalls xs)"
  "announceCalls (xs @ ys) = announceCalls xs @ announceCalls ys"
  by (simp_all add: announceCalls_def)

lemma storageAdds_simps [simp]:
  "storageAdds [] = []"
  "storageAdds (x # xs) = (if isStorageAdd x then x # storageAdds xs else storageAdds xs)"
  "storageAdds (xs @ ys) = storageAdds xs @ storageAdds ys"
  by (simp_all add: storageAdds_def)

lemma dispatchedEvents_simps [simp]:
  "dispatchedEvents [] = []"
  "dispatchedEvents (x # xs) = (if isDispatch x then x # dispatchedEvents xs else dispatchedEvents xs)"
  "dispatchedEvents (xs @ ys) = dispatchedEvents xs @ dispatchedEvents ys"
  by (simp_all add: dispatchedEvents_def)

lemma emit_simps [simp]:
  "mode (emit x s) = mode s"
  "tabId (emit x s) = tabId s"
  "connector (emit x s) = connector s"
  "currentSong (emit x s) = currentSong s"
  "playbackTimer (emit x s) = playbackTimer s"
  "replayDetectionTimer (emit x s) = replayDetectionTimer s"
  "isReplayingSong (emit x s) = isReplayingSong s"
  "isControllerEnabled (emit x s) = isControllerEnabled s"
  "shouldScrobblePodcasts (emit x s) = shouldScrobblePodcasts s"
  "effects (emit x s) = effects s @ [x]"
  by (simp_all add: emit_def)

lemma debugLog_simps [simp]:
  "mode (debugLog t l s) = mode s"
  "tabId (debugLog t l s) = tabId s"
  "connector (debugLog t l s) = connector s"
  "currentSong (debugLog t l s) = currentSong s"
  "playbackTimer (debugLog t l s) = playbackTimer s"
  "replayDetectionTimer (debugLog t l s) = replayDetectionTimer s"
  "isReplayingSong (debugLog t l s) = isReplayingSong s"
  "isControllerEnabled (debugLog t l s) = isControllerEnabled s"
  "shouldScrobblePodcasts (debugLog t l s) = shouldScrobblePodcasts s"
  "effects (debugLog t l s) = effects s @ [DebugLog (tabId s) t l]"
  by (simp_all add: debugLog_def)

lemma onSongUpdated_simps [simp]:
  "mode (onSongUpdated s) = mode s"
  "tabId (onSongUpdated s) = tabId s"
  "connector (onSongUpdated s) = connector s"
  "currentSong (onSongUpdated s) = currentSong s"
  "playbackTimer (onSongUpdated s) = playbackTimer s"
  "replayDetectionTimer (onSongUpdated s) = replayDetectionTimer s"
  "isReplayingSong (onSongUpdated s) = isReplayingSong s"
  "isControllerEnabled (onSongUpdated s) = isControllerEnabled s"
  "shouldScrobblePodcasts (onSongUpdated s) = shouldScrobblePodcasts s"
  "effects (onSongUpdated s) = effects s @ [SongUpdated]"
  by (simp_all add: onSongUpdated_def)

lemma setMode_simps [simp]:
  "mode (setMode m s) = m"
  "tabId (setMode m s) = tabId s"
  "connector (setMode m s) = connector s"
  "currentSong (setMode m s) = currentSong s"
  "playbackTimer (setMode m s) = playbackTimer s"
  "replayDetectionTimer (setMode m s) = replayDetectionTimer s"
  "isReplayingSong (setMode m s) = isReplayingSong s"
  "isControllerEnabled (setMode m s) = isControllerEnabled s"
  "shouldScrobblePodcasts (setMode m s) = shouldScrobblePodcasts s"
  "effects (setMode m s) = effects s @ [ModeChanged m]"
  by (simp_all add: setMode_def)

lemma dispatchEvent_simps [simp]:
  "mode (dispatchEvent ev s) = mode s"
  "tabId (dispatchEvent ev s) = tabId s"
  "connector (dispatchEvent ev s) = connector s"
  "currentSong (dispatchEvent ev s) = currentSong s"
  "playbackTimer (dispatchEvent ev s) = playbackTimer s"
  "replayDetectionTimer (dispatchEvent ev s) = replayDetectionTimer s"
  "isReplayingSong (dispatchEvent ev s) = isReplayingSong s"
  "isControllerEnabled (dispatchEvent ev s) = isControllerEnabled s"
  "shouldScrobblePodcasts (dispatchEvent ev s) = shouldScrobblePodcasts s"
  "effects (dispatchEvent ev s) = effects s @ [ControllerEventDispatched ev]"
  by (simp_all add: dispatchEvent_def)

lemma setSongNotRecognized_simps [simp]:
  "mode (setSongNotRecognized s) = Unknown"
  "tabId (setSongNotRecognized s) = tabId s"
  "currentSong (setSongNotRecognized s) = currentSong s"
  "playbackTimer (setSongNotRecognized s) = playbackTimer s"
  "replayDetectionTimer (setSongNotRecognized s) = replayDetectionTimer s"
  "isReplayingSong (setSongNotRecognized s) = isReplayingSong s"
  "isControllerEnabled (setSongNotRecognized s) = isControllerEnabled s"
  "shouldScrobblePodcasts (setSongNotRecognized s) = shouldScrobblePodcasts s"
  "effects (setSongNotRecognized s) =
     effects s @ [ModeChanged Unknown, ControllerEventDispatched SongUnrecognized]"
  by (simp_all add: setSongNotRecognized_def)

lemma resetState_simps [simp]:
  "mode (resetState s) = mode s"
  "tabId (resetState s) = tabId s"
  "currentSong (resetState s) = None"
  "playbackTimer (resetState s) = Timer_reset (playbackTimer s)"
  "replayDetectionTimer (resetState s) = Timer_reset (replayDetectionTimer s)"
  "isReplayingSong (resetState s) = isReplayingSong s"
  "isControllerEnabled (resetState s) = isControllerEnabled s"
  "shouldScrobblePodcasts (resetState s) = shouldScrobblePodcasts s"
  "effects (resetState s) = effects s @ [ControllerEventDispatched Reset]"
  by (simp_all add: resetState_def)

lemma reset_simps [simp]:
  "mode (reset s) = Base"
  "tabId (reset s) = tabId s"
  "currentSong (reset s) = None"
  "playbackTimer (reset s) = Timer_reset (playbackTimer s)"
  "replayDetectionTimer (reset s) = Timer_reset (replayDetectionTimer s)"
  "isReplayingSong (reset s) = isReplayingSong s"
  "isControllerEnabled (reset s) = isControllerEnabled s"
  "shouldScrobblePodcasts (reset s) = shouldScrobblePodcasts s"
  "effects (reset s) = effects s @ [ControllerEventDispatched Reset, ModeChanged Base]"
  by (simp_all add: reset_def)

lemma updateTimers_simps [simp]:
  "mode (updateTimers env d s) = mode s"
  "tabId (updateTimers env d s) = tabId s"
  "currentSong (updateTimers env d s) = currentSong s"
  "isReplayingSong (updateTimers env d s) = isReplayingSong s"
  "isControllerEnabled (updateTimers env d s) = isControllerEnabled s"
  "shouldScrobblePodcasts (updateTimers env d s) = shouldScrobblePodcasts s"
  "announceCalls (effects (updateTimers env d s)) = announceCalls (effects s)"
  "storageAdds (effects (updateTimers env d s)) = storageAdds (effects s)"
  "dispatchedEvents (effects (updateTimers env d s)) = dispatchedEvents (effects s)"
  by (simp_all add: updateTimers_def Let_def)

lemma updateTimers_playbackTimer:
  "playbackTimer (updateTimers env d s) =
     (if Timer_isExpired (playbackTimer s) \<or> getSecondsToScrobble env d = - 1
      then playbackTimer s
      else Timer_update (Some (getSecondsToScrobble env d)) (playbackTimer s))"
  by (simp add: updateTimers_def Let_def)

lemma updateTimers_replayDetectionTimer:
  "replayDetectionTimer (updateTimers env d s) =
     (if Timer_isExpired (playbackTimer s) \<or> getSecondsToScrobble env d = - 1
      then replayDetectionTimer s
      else Timer_update d (replayDetectionTimer s))"
  by (simp add: updateTimers_def Let_def)

lemma setSongNowPlaying_Inr:
  assumes "currentSong s = Some sg"
  shows "\<exists>s'. setSongNowPlaying env s = Inr s'
     \<and> currentSong s' = Some (sg\<lparr>flags := (flags sg)\<lparr>isMarkedAsPlaying := True\<rparr>\<rparr>)
     \<and> playbackTimer s' = playbackTimer s
     \<and> replayDetectionTimer s' = replayDetectionTimer s
     \<and> isReplayingSong s' = isReplayingSong s
     \<and> isControllerEnabled s' = isControllerEnabled s
     \<and> shouldScrobblePodcasts s' = shouldScrobblePodcasts s
     \<and> tabId s' = tabId s
     \<and> announceCalls (effects s') = announceCalls (effects s) @ [SendNowPlayingCall (Song_getInfo sg)]
     \<and> storageAdds (effects s') = storageAdds (effects s)
     \<and> dispatchedEvents (effects s') =
          dispatchedEvents (effects s) @ [ControllerEventDispatched SongNowPlaying]"
  using assms
  by (simp add: setSongNowPlaying_def seq_defs Let_def song_defs)

lemma skipCurrentSong_Inr:
  assumes "currentSong s = Some sg"
  shows "skipCurrentSong s =
     Inr (onSongUpdated
           ((setMode Skipped s)\<lparr>currentSong := Some (sg\<lparr>flags := (flags sg)\<lparr>isSkipped := True\<rparr>\<rparr>)\<rparr>))"
  using assms by (simp add: skipCurrentSong_def seq_defs assertSongIsPlaying_def Let_def)

lemma addSongToScrobbleStorage_Inr:
  "currentSong s = Some sg \<Longrightarrow>
   addSongToScrobbleStorage env ids s =
     Inr (emit (ScrobbleStorage_addSong (Song_getInfo sg)
                 (case ids of None \<Rightarrow> ScrobbleManager_getBoundScrobblerIds env | Some given \<Rightarrow> given)) s)"
  by (simp add: addSongToScrobbleStorage_def seq_defs)

lemma failed_lt_iff_any_ok:
  "(failedCount results < length results) = isAnyResult results RESULT_OK"
  by (induction results) (auto simp add: failedCount_def isAnyResult_def less_Suc_eq_le)

lemma scrobbleSong_Inr:
  assumes "currentSong s = Some sg"
  shows "\<exists>s'. scrobbleSong env s = Inr s'
     \<and> mode s' =
         (if failedCount (ScrobbleManager_scrobble env (Song_getInfo sg))
               < length (ScrobbleManager_scrobble env (Song_getInfo sg)) then Scrobbled
          else if areAllResults (ScrobbleManager_scrobble env (Song_getInfo sg)) RESULT_IGNORE
          then Ignored else Err)
     \<and> currentSong s' =
         (if failedCount (ScrobbleManager_scrobble env (Song_getInfo sg))
               < length (ScrobbleManager_scrobble env (Song_getInfo sg))
          then Some (sg\<lparr>flags := (flags sg)\<lparr>isScrobbled := True\<rparr>\<rparr>)
          else Some sg)
     \<and> storageAdds (effects s') = storageAdds (effects s) @
         (if failedIds (ScrobbleManager_scrobble env (Song_getInfo sg)) = [] then []
          else [ScrobbleStorage_addSong (Song_getInfo sg)
                  (failedIds (ScrobbleManager_scrobble env (Song_getInfo sg)))])
     \<and> announceCalls (effects s') = announceCalls (effects s)
     \<and> playbackTimer s' = playbackTimer s
     \<and> replayDetectionTimer s' = replayDetectionTimer s
     \<and> isReplayingSong s' = isReplayingSong s
     \<and> isControllerEnabled s' = isControllerEnabled s"
  using assms
  by (simp add: scrobbleSong_def seq_defs Let_def failedCount_def failedIds_def
      addSongToScrobbleStorage_Inr song_defs)

lemma updateSongDuration_Inr:
  "currentSong s = Some sg \<Longrightarrow>
   updateSongDuration env d s =
     Inr (if Song_isValid sg
          then updateTimers env (Some d)
                 ((debugLog ''Update duration'' LogLog s)
                    \<lparr>currentSong := Some (sg\<lparr>parsed := (parsed sg)\<lparr>duration := Some d\<rparr>\<rparr>)\<rparr>)
          else (debugLog ''Update duration'' LogLog s)
                 \<lparr>currentSong := Some (sg\<lparr>parsed := (parsed sg)\<lparr>duration := Some d\<rparr>\<rparr>)\<rparr>)"
  by (simp add: updateSongDuration_def seq_defs Let_def song_defs)

lemma onPlayingStateChanged_Inr:
  assumes "currentSong s = Some sg"
  shows "\<exists>s'. onPlayingStateChanged env v s = Inr s'
     \<and> currentSong s' =
         (if v \<and> \<not> isMarkedAsPlaying (flags sg) \<and> Song_isValid sg
          then Some (sg\<lparr>flags := (flags sg)\<lparr>isMarkedAsPlaying := True\<rparr>\<rparr>) else Some sg)
     \<and> playbackTimer s' = (if v then Timer_resume (playbackTimer s) else Timer_pause (playbackTimer s))
     \<and> replayDetectionTimer s' =
         (if v then Timer_resume (replayDetectionTimer s) else Timer_pause (replayDetectionTimer s))
     \<and> announceCalls (effects s') = announceCalls (effects s) @
         (if v \<and> \<not> isMarkedAsPlaying (flags sg) \<and> Song_isValid sg
          then [SendNowPlayingCall (Song_getInfo sg)] else [])
     \<and> isReplayingSong s' = isReplayingSong s
     \<and> isControllerEnabled s' = isControllerEnabled s"
proof (cases "v \<and> \<not> isMarkedAsPlaying (flags sg) \<and> Song_isValid sg")
  case True
  define s2 where "s2 = (debugLog ''isPlaying state changed'' LogLog s)
      \<lparr>playbackTimer := Timer_resume (playbackTimer s),
        replayDetectionTimer := Timer_resume (replayDetectionTimer s)\<rparr>"
  have song2: "currentSong s2 = Some sg" using assms by (simp add: s2_def)
  have eq: "onPlayingStateChanged env v s = setSongNowPlaying env s2"
    using True assms by (simp add: onPlayingStateChanged_def seq_defs Let_def s2_def)
  from setSongNowPlaying_Inr [OF song2, of env] obtain s' where
    "setSongNowPlaying env s2 = Inr s'"
    "currentSong s' = Some (sg\<lparr>flags := (flags sg)\<lparr>isMarkedAsPlaying := True\<rparr>\<rparr>)"
    "playbackTimer s' = playbackTimer s2" "replayDetectionTimer s' = replayDetectionTimer s2"
    "isReplayingSong s' = isReplayingSong s2" "isControllerEnabled s' = isControllerEnabled s2"
    "announceCalls (effects s') = announceCalls (effects s2) @ [SendNowPlayingCall (Song_getInfo sg)]"
    by blast
  with eq True show ?thesis by (simp add: s2_def)
next
  case False
  then show ?thesis using assms
    by (auto simp add: onPlayingStateChanged_def seq_defs Let_def)
qed

lemma isNeedToUpdateDuration_Some:
  "isNeedToUpdateDuration r sg \<Longrightarrow> \<exists>d. duration r = Some d"
  by (simp add: isNeedToUpdateDuration_def split: option.splits)

lemma processCurrentState_Inr:
  assumes song: "currentSong s = Some sg" and ns: "\<not> isSkipped (flags sg)"
  shows "\<exists>s' sg'. processCurrentState env r s = Inr s' \<and> currentSong s' = Some sg'
     \<and> parsed sg' = (parsed sg)
          \<lparr>duration := (if isNeedToUpdateDuration r sg then duration r else duration (parsed sg)),
           currentTime := currentTime r, isPlaying := isPlaying r, trackArt := trackArt r\<rparr>
     \<and> flags sg' =
         (if isPlaying (parsed sg) \<noteq> isPlaying r \<and> isPlaying r
             \<and> \<not> isMarkedAsPlaying (flags sg) \<and> Song_isValid sg
          then (flags sg)\<lparr>isMarkedAsPlaying := True\<rparr> else flags sg)
     \<and> playbackTimer s' =
         (if isPlaying (parsed sg) = isPlaying r then (\<lambda>t. t)
          else if isPlaying r then Timer_resume else Timer_pause)
           (if isNeedToUpdateDuration r sg \<and> Song_isValid sg
               \<and> \<not> Timer_isExpired (playbackTimer s)
               \<and> getSecondsToScrobble env (duration r) \<noteq> - 1
            then Timer_update (Some (getSecondsToScrobble env (duration r))) (playbackTimer s)
            else playbackTimer s)
     \<and> replayDetectionTimer s' =
         (if isPlaying (parsed sg) = isPlaying r then (\<lambda>t. t)
          else if isPlaying r then Timer_resume else Timer_pause)
           (if isNeedToUpdateDuration r sg \<and> Song_isValid sg
               \<and> \<not> Timer_isExpired (playbackTimer s)
               \<and> getSecondsToScrobble env (duration r) \<noteq> - 1
            then Timer_update (duration r) (replayDetectionTimer s)
            else replayDetectionTimer s)
     \<and> announceCalls (effects s') = announceCalls (effects s) @
         (if isPlaying (parsed sg) \<noteq> isPlaying r \<and> isPlaying r
             \<and> \<not> isMarkedAsPlaying (flags sg) \<and> Song_isValid sg
          then [SendNowPlayingCall (parsed sg')] else [])
     \<and> isReplayingSong s' = isReplayingSong s
     \<and> isControllerEnabled s' = isControllerEnabled s"
proof -
  define sg1 where "sg1 = sg\<lparr>parsed := (parsed sg)\<lparr>currentTime := currentTime r,
      isPlaying := isPlaying r, trackArt := trackArt r\<rparr>\<rparr>"
  define s1 where "s1 = s\<lparr>currentSong := Some sg1\<rparr>"
  define need where "need = isNeedToUpdateDuration r sg"
  have need1: "isNeedToUpdateDuration r sg1 = need"
    by (simp add: need_def sg1_def isNeedToUpdateDuration_def split: option.splits)
  define sg2 where "sg2 = (if need then sg1\<lparr>parsed := (parsed sg1)\<lparr>duration := duration r\<rparr>\<rparr> else sg1)"
  define s1d where "s1d = (debugLog ''Update duration'' LogLog s1)\<lparr>currentSong := Some sg2\<rparr>"
  define s2 where "s2 = (if need then (if Song_isValid sg then updateTimers env (duration r) s1d else s1d) else s1)"
  have song1: "currentSong s1 = Some sg1" by (simp add: s1_def)
  have upd: "(if isNeedToUpdateDuration r sg1
                then (case duration r of Some d \<Rightarrow> updateSongDuration env d s1 | None \<Rightarrow> Inr s1)
                else Inr s1) = Inr s2"
  proof (cases need)
    case True
    then obtain d where d: "duration r = Some d"
      using isNeedToUpdateDuration_Some need_def by blast
    show ?thesis
      using True d updateSongDuration_Inr [OF song1, of env d] unfolding need1
      by (simp add: s2_def s1d_def sg2_def sg1_def Song_isValid_def)
  next
    case False
    then show ?thesis by (simp add: need1 s2_def)
  qed
  have song2: "currentSong s2 = Some sg2"
    by (simp add: s2_def s1d_def sg2_def s1_def)
  have parsed2: "parsed sg2 = (parsed sg)
          \<lparr>duration := (if need then duration r else duration (parsed sg)),
           currentTime := currentTime r, isPlaying := isPlaying r, trackArt := trackArt r\<rparr>"
    by (simp add: sg2_def sg1_def)
  have flags2: "flags sg2 = flags sg" by (simp add: sg2_def sg1_def)
  have pt2: "playbackTimer s2 =
      (if need \<and> Song_isValid sg \<and> \<not> Timer_isExpired (playbackTimer s)
            \<and> getSecondsToScrobble env (duration r) \<noteq> - 1
       then Timer_update (Some (getSecondsToScrobble env (duration r))) (playbackTimer s)
       else playbackTimer s)"
    by (simp add: s2_def s1d_def s1_def updateTimers_playbackTimer)
  have rt2: "replayDetectionTimer s2 =
      (if need \<and> Song_isValid sg \<and> \<not> Timer_isExpired (playbackTimer s)
            \<and> getSecondsToScrobble env (duration r) \<noteq> - 1
       then Timer_update (duration r) (replayDetectionTimer s)
       else replayDetectionTimer s)"
    by (simp add: s2_def s1d_def s1_def updateTimers_replayDetectionTimer)
  have ann2: "announceCalls (effects s2) = announceCalls (effects s)"
    by (simp add: s2_def s1d_def s1_def)
  have rep2: "isReplayingSong s2 = isReplayingSong s"
    and en2: "isControllerEnabled s2 = isControllerEnabled s"
    by (simp_all add: s2_def s1d_def s1_def)
  have eq0: "processCurrentState env r s =
      andThen
        (if isNeedToUpdateDuration r sg1
         then (case duration r of Some d \<Rightarrow> updateSongDuration env d s1 | None \<Rightarrow> Inr s1)
         else Inr s1)
        (\<lambda>s2. if isPlaying (parsed sg) \<noteq> isPlaying r
               then onPlayingStateChanged env (isPlaying r) s2 else Inr s2)"
    unfolding sg1_def s1_def using song ns
    by (simp add: processCurrentState_def withSong_def Let_def)
  have eq: "processCurrentState env r s =
      (if isPlaying (parsed sg) \<noteq> isPlaying r
       then onPlayingStateChanged env (isPlaying r) s2 else Inr s2)"
    unfolding eq0 upd by (simp add: andThen_def)
  show ?thesis
  proof (cases "isPlaying (parsed sg) = isPlaying r")
    case True
    with eq song2 parsed2 flags2 pt2 rt2 ann2 rep2 en2 show ?thesis
      by (simp add: need_def)
  next
    case False
    from onPlayingStateChanged_Inr [OF song2, of env "isPlaying r"] obtain s' where
      r: "onPlayingStateChanged env (isPlaying r) s2 = Inr s'"
      and c: "currentSong s' =
         (if isPlaying r \<and> \<not> isMarkedAsPlaying (flags sg2) \<and> Song_isValid sg2
          then Some (sg2\<lparr>flags := (flags sg2)\<lparr>isMarkedAsPlaying := True\<rparr>\<rparr>) else Some sg2)"
      and p: "playbackTimer s' =
         (if isPlaying r then Timer_resume (playbackTimer s2) else Timer_pause (playbackTimer s2))"
      and q: "replayDetectionTimer s' =
         (if isPlaying r then Timer_resume (replayDetectionTimer s2)
          else Timer_pause (replayDetectionTimer s2))"
      and a: "announceCalls (effects s') = announceCalls (effects s2) @
         (if isPlaying r \<and> \<not> isMarkedAsPlaying (flags sg2) \<and> Song_isValid sg2
          then [SendNowPlayingCall (Song_getInfo sg2)] else [])"
      and e: "isReplayingSong s' = isReplayingSong s2" "isControllerEnabled s' = isControllerEnabled s2"
      by blast
    have valid2: "Song_isValid sg2 = Song_isValid sg"
      by (simp add: Song_isValid_def flags2)
    show ?thesis
      using False eq r c p q a e parsed2 flags2 pt2 rt2 ann2 rep2 en2 valid2
      by (simp add: need_def Song_getInfo_def)
  qed
qed

lemma processCurrentState_skipped:
  "currentSong s = Some sg \<Longrightarrow> isSkipped (flags sg) \<Longrightarrow> processCurrentState env r s = Inr s"
  by (simp add: processCurrentState_def withSong_def)

lemma processStateChange_current:
  "isControllerEnabled s \<Longrightarrow> \<not> util_isStateEmpty env r \<Longrightarrow> \<not> isSongChanged r s
     \<Longrightarrow> \<not> isReplayingSong s \<Longrightarrow> processStateChange env r s = processCurrentState env r s"
  by (simp add: processStateChange_def)

lemma isNeedToAddSongToScrobbleStorage_debugLog [simp]:
  "isNeedToAddSongToScrobbleStorage env (debugLog t l s) = isNeedToAddSongToScrobbleStorage env s"
  by (simp add: isNeedToAddSongToScrobbleStorage_def Let_def split: option.splits)

lemma processEmptyState_song:
  assumes "currentSong s = Some sg"
  shows "\<exists>s'. processEmptyState env r s = Inr s'
     \<and> currentSong s' = None \<and> mode s' = Base
     \<and> playbackTimer s' = Timer_reset (playbackTimer s)
     \<and> replayDetectionTimer s' = Timer_reset (replayDetectionTimer s)
     \<and> isReplayingSong s' = isReplayingSong s
     \<and> isControllerEnabled s' = isControllerEnabled s
     \<and> shouldScrobblePodcasts s' = shouldScrobblePodcasts s
     \<and> tabId s' = tabId s
     \<and> effects s' = effects s
          @ [DebugLog (tabId s) ''Received empty state - resetting'' LogLog]
          @ (if isNeedToAddSongToScrobbleStorage env s
             then [ScrobbleStorage_addSong (Song_getInfo sg) (ScrobbleManager_getBoundScrobblerIds env)]
             else [])
          @ [ControllerEventDispatched Reset, ModeChanged Base]
          @ (if isPlaying r
             then [DebugLog (tabId s)
                    ''State from connector doesn't contain enough information about the playing track''
                    LogWarn]
             else [])"
  using assms
  by (simp add: processEmptyState_def andThen_def Let_def addSongToScrobbleStorage_Inr)

lemma processEmptyState_no_song:
  "currentSong s = None \<Longrightarrow>
   processEmptyState env r s =
     Inr (if isPlaying r
          then debugLog ''State from connector doesn't contain enough information about the playing track''
                 LogWarn s
          else s)"
  by (simp add: processEmptyState_def andThen_def)

lemma processNewState_simps [simp]:
  "isControllerEnabled (processNewState r s) = isControllerEnabled s"
  "shouldScrobblePodcasts (processNewState r s) = shouldScrobblePodcasts s"
  "tabId (processNewState r s) = tabId s"
  "currentSong (processNewState r s) \<noteq> None"
  by (simp_all add: processNewState_def Let_def)

lemma skipCurrentSong_enabled:
  "skipCurrentSong s = Inr s' \<Longrightarrow> isControllerEnabled s' = isControllerEnabled s \<and> currentSong s \<noteq> None"
  by (cases "currentSong s") (auto simp add: skipCurrentSong_def seq_defs assertSongIsPlaying_def Let_def)

lemma setSongNowPlaying_enabled:
  "setSongNowPlaying env s = Inr s' \<Longrightarrow> isControllerEnabled s' = isControllerEnabled s"
proof (cases "currentSong s")
  case None
  assume "setSongNowPlaying env s = Inr s'"
  with None show ?thesis by (simp add: setSongNowPlaying_def withSong_def)
next
  case (Some sg)
  assume "setSongNowPlaying env s = Inr s'"
  with setSongNowPlaying_Inr [OF Some, of env] show ?thesis by auto
qed

lemma processSong_enabled:
  "processSong env s = Inr s' \<Longrightarrow> isControllerEnabled s' = isControllerEnabled s \<and> currentSong s \<noteq> None"
  by (cases "currentSong s")
     (auto simp add: processSong_def seq_defs Let_def split: if_splits sum.splits
        dest!: skipCurrentSong_enabled setSongNowPlaying_enabled)

lemma unprocessSong_enabled:
  "unprocessSong env s = Inr s' \<Longrightarrow>
     isControllerEnabled s' = isControllerEnabled s \<and> currentSong s \<noteq> None"
  by (cases "currentSong s") (auto simp add: unprocessSong_def seq_defs Let_def)

lemma processCurrentState_enabled:
  "processCurrentState env r s = Inr s' \<Longrightarrow> isControllerEnabled s' = isControllerEnabled s"
proof (cases "currentSong s")
  case None
  assume "processCurrentState env r s = Inr s'"
  with None show ?thesis by (simp add: processCurrentState_def withSong_def)
next
  case (Some sg)
  assume r: "processCurrentState env r s = Inr s'"
  show ?thesis
  proof (cases "isSkipped (flags sg)")
    case True
    with Some r show ?thesis by (simp add: processCurrentState_skipped)
  next
    case False
    from processCurrentState_Inr [OF Some False, of env r] r show ?thesis by auto
  qed
qed

lemma addSongToScrobbleStorage_enabled:
  "addSongToScrobbleStorage env ids s = Inr s' \<Longrightarrow> isControllerEnabled s' = isControllerEnabled s
     \<and> currentSong s' = currentSong s \<and> isReplayingSong s' = isReplayingSong s
     \<and> shouldScrobblePodcasts s' = shouldScrobblePodcasts s"
  by (cases "currentSong s") (auto simp add: addSongToScrobbleStorage_def seq_defs Let_def)

lemma processEmptyState_enabled:
  "processEmptyState env r s = Inr s' \<Longrightarrow> isControllerEnabled s' = isControllerEnabled s"
proof (cases "currentSong s")
  case None
  assume "processEmptyState env r s = Inr s'"
  with None show ?thesis by (auto simp add: processEmptyState_no_song split: if_splits)
next
  case (Some sg)
  assume "processEmptyState env r s = Inr s'"
  with processEmptyState_song [OF Some, of env r] show ?thesis by auto
qed

lemma processStateChange_enabled:
  "processStateChange env r s = Inr s' \<Longrightarrow> isControllerEnabled s' = isControllerEnabled s"
  by (auto simp add: processStateChange_def andThen_def split: if_splits sum.splits
      dest!: processEmptyState_enabled processCurrentState_enabled processSong_enabled
        addSongToScrobbleStorage_enabled)

lemma resetSongData_enabled:
  "resetSongData env s = Inr s' \<Longrightarrow> isControllerEnabled s' = isControllerEnabled s \<and> currentSong s \<noteq> None"
  by (cases "currentSong s")
     (auto simp add: resetSongData_def seq_defs assertSongIsPlaying_def Let_def split: sum.splits
        dest!: unprocessSong_enabled processSong_enabled)

lemma setUserSongData_enabled:
  "setUserSongData env dat s = Inr s' \<Longrightarrow> isControllerEnabled s' = isControllerEnabled s \<and> currentSong s \<noteq> None"
  by (cases "currentSong s")
     (auto simp add: setUserSongData_def seq_defs assertSongIsPlaying_def Let_def
        split: sum.splits if_splits
        dest!: unprocessSong_enabled processSong_enabled)

lemma toggleLove_enabled:
  "toggleLove env l s = Inr s' \<Longrightarrow> isControllerEnabled s' = isControllerEnabled s \<and> currentSong s \<noteq> None"
  by (cases "currentSong s")
     (auto simp add: toggleLove_def seq_defs assertSongIsPlaying_def Let_def split: if_splits)

lemma onPlaybackTimerExpired_enabled:
  "onPlaybackTimerExpired env s = Inr s' \<Longrightarrow> isControllerEnabled s' = isControllerEnabled s \<and> currentSong s \<noteq> None"
proof (cases "currentSong s")
  case None
  assume "onPlaybackTimerExpired env s = Inr s'"
  with None show ?thesis by (simp add: onPlaybackTimerExpired_def withSong_def Let_def)
next
  case (Some sg)
  assume r: "onPlaybackTimerExpired env s = Inr s'"
  define s2 where "s2 = (debugLog ''Mark song as ready to scrobble'' LogLog s)
     \<lparr>currentSong := Some (sg\<lparr>flags := (flags sg)\<lparr>isReadyToScrobble := True\<rparr>\<rparr>)\<rparr>"
  have song2: "currentSong s2 = Some (sg\<lparr>flags := (flags sg)\<lparr>isReadyToScrobble := True\<rparr>\<rparr>)"
    by (simp add: s2_def)
  have eq: "onPlaybackTimerExpired env s = (if isSkipped (flags sg) then Inr s2 else scrobbleSong env s2)"
    using Some by (simp add: onPlaybackTimerExpired_def withSong_def Let_def s2_def)
  from scrobbleSong_Inr [OF song2, of env] obtain s3 where
    "scrobbleSong env s2 = Inr s3" "isControllerEnabled s3 = isControllerEnabled s2" by blast
  with eq r Some show ?thesis by (auto simp add: s2_def split: if_splits)
qed

lemma step_song_enabled:
  assumes inv: "currentSong s \<noteq> None \<longrightarrow> isControllerEnabled s"
    and st: "step env s e = Inr s'"
  shows "currentSong s' \<noteq> None \<longrightarrow> isControllerEnabled s'"
proof (cases e)
  case (ProcessStateChange r)
  with st have en: "isControllerEnabled s' = isControllerEnabled s"
    by (simp add: processStateChange_enabled)
  show ?thesis
  proof (cases "isControllerEnabled s")
    case True with en show ?thesis by simp
  next
    case False
    with st ProcessStateChange have "s' = s" by (simp add: processStateChange_def)
    with inv show ?thesis by simp
  qed
next
  case (SetEnabled flag)
  with st show ?thesis by (cases flag) (auto simp add: setEnabled_def Let_def)
next
  case Finish
  with st show ?thesis by (auto simp add: finish_def)
next
  case ResetSongData
  with st inv show ?thesis by (auto dest!: resetSongData_enabled)
next
  case SkipCurrentSong
  with st inv show ?thesis by (auto dest!: skipCurrentSong_enabled)
next
  case (SetUserSongData dat)
  with st inv show ?thesis by (auto dest!: setUserSongData_enabled)
next
  case (ToggleLove l)
  with st inv show ?thesis by (auto dest!: toggleLove_enabled)
next
  case PlaybackTimerFires
  with st inv show ?thesis by (auto split: if_splits dest!: onPlaybackTimerExpired_enabled)
next
  case ReplayTimerFires
  with st inv show ?thesis by (auto simp add: onReplayTimerExpired_def split: if_splits)
next
  case (Tick n)
  with st inv show ?thesis by auto
qed

lemma after_song_enabled:
  "currentSong s \<noteq> None \<longrightarrow> isControllerEnabled s \<Longrightarrow>
   currentSong (after env s e) \<noteq> None \<longrightarrow> isControllerEnabled (after env s e)"
  using step_song_enabled [of s env e]
  by (cases "step env s e") (simp_all add: after_def)

lemma run_song_enabled:
  "currentSong s \<noteq> None \<longrightarrow> isControllerEnabled s \<Longrightarrow>
   currentSong (run s es) \<noteq> None \<longrightarrow> isControllerEnabled (run s es)"
proof (induction es arbitrary: s)
  case Nil
  then show ?case by simp
next
  case (Cons a es)
  obtain env e where a: "a = (env, e)" by (cases a)
  from Cons.prems have "currentSong (after env s e) \<noteq> None \<longrightarrow> isControllerEnabled (after env s e)"
    by (rule after_song_enabled)
  from Cons.IH [OF this] a show ?case by simp
qed

lemma isSongChanged_None: "currentSong s = None \<Longrightarrow> isSongChanged r s"
  by (simp add: isSongChanged_def)

lemmas example_defs = okResult_def acceptSong_def sameSong_def clearSong_def
  exampleSecondsToScrobble_def exampleIsStateEmpty_def oneOk_def neverRejected_def exampleEnv_def
  exampleReading_def freshController_def Controller_new_def announcedSong_def

lemmas method_defs = emit_def debugLog_def onSongUpdated_def setMode_def dispatchEvent_def
  resetState_def reset_def andThen_def withSong_def assertSongIsPlaying_def setSongNotRecognized_def
  getSecondsToScrobble_def isSongChanged_def fieldsToCheckSongChange_def isNeedToUpdateDuration_def
  addSongToScrobbleStorage_def isNeedToAddSongToScrobbleStorage_def updateTimers_def
  updateSongDuration_def setSongNowPlaying_def scrobbleSong_def skipCurrentSong_def
  processNewState_def processSong_def unprocessSong_def onPlayingStateChanged_def
  processCurrentState_def processEmptyState_def processStateChange_def setEnabled_def finish_def
  resetSongData_def setUserSongData_def toggleLove_def onPlaybackTimerExpired_def
  onReplayTimerExpired_def after_def stateOr_def isAnyResult_def areAllResults_def is_result_def
  getScrobblerId_def

lemma playingController_eq:
  "playingController =
     \<lparr>mode = Playing, tabId = 1, connector = ''connector'',
      currentSong = Some announcedSong,
      playbackTimer = \<lparr>elapsed = 0, target = Some 120, paused = False,
                        callback = Some OnPlaybackTimerExpired\<rparr>,
      replayDetectionTimer = \<lparr>elapsed = 0, target = Some 240, paused = False,
                               callback = Some OnReplayTimerExpired\<rparr>,
      isReplayingSong = False, isControllerEnabled = True, shouldScrobblePodcasts = True,
      effects =
        [DebugLog 1 ''Created controller'' LogLog,
         ControllerEventDispatched Reset,
         DebugLog 1 ''New song detected'' LogLog, ModeChanged Loading,
         DebugLog 1 ''Song finished processing'' LogLog,
         DebugLog 1 ''The song will be scrobbled'' LogLog,
         DebugLog 1 ''The song will be repeated'' LogLog,
         SendNowPlayingCall exampleReading,
         DebugLog 1 ''Song set as now playing'' LogLog, ModeChanged Playing,
         ControllerEventDispatched SongNowPlaying, SongUpdated]\<rparr>"
  by (simp add: playingController_def example_defs method_defs timer_defs song_defs Let_def)

lemma expiredController_eq:
  "expiredController =
     playingController
       \<lparr>playbackTimer := \<lparr>elapsed = 130, target = Some 120, paused = False,
                           callback = Some OnPlaybackTimerExpired\<rparr>,
        replayDetectionTimer := \<lparr>elapsed = 130, target = Some 240, paused = False,
                                  callback = Some OnReplayTimerExpired\<rparr>\<rparr>"
  by (simp add: expiredController_def playingController_eq after_def timer_defs)

lemma unrecognizedController_eq:
  "unrecognizedController =
     \<lparr>mode = Unknown, tabId = 1, connector = ''connector'',
      currentSong = Some (Song_new exampleReading),
      playbackTimer = \<lparr>elapsed = 130, target = None, paused = False,
                        callback = Some OnPlaybackTimerExpired\<rparr>,
      replayDetectionTimer = \<lparr>elapsed = 130, target = None, paused = False,
                               callback = Some OnReplayTimerExpired\<rparr>,
      isReplayingSong = False, isControllerEnabled = True, shouldScrobblePodcasts = True,
      effects =
        [DebugLog 1 ''Created controller'' LogLog,
         ControllerEventDispatched Reset,
         DebugLog 1 ''New song detected'' LogLog, ModeChanged Loading,
         DebugLog 1 ''Song finished processing'' LogLog, ModeChanged Unknown,
         ControllerEventDispatched SongUnrecognized, SongUpdated]\<rparr>"
  by (simp add: unrecognizedController_def unrecognizingEnv_def example_defs method_defs timer_defs song_defs Let_def)

lemma skippedController_eq:
  "skippedController =
     playingController
       \<lparr>mode := Skipped,
        currentSong := Some (announcedSong\<lparr>flags := (flags announcedSong)\<lparr>isSkipped := True\<rparr>\<rparr>),
        effects := effects playingController @ [ModeChanged Skipped, SongUpdated]\<rparr>"
  by (simp add: skippedController_def playingController_eq method_defs)

lemma scrobbledController_eq:
  "scrobbledController =
     expiredController
       \<lparr>mode := Scrobbled,
        currentSong := Some (announcedSong\<lparr>flags := (flags announcedSong)
                               \<lparr>isReadyToScrobble := True, isScrobbled := True\<rparr>\<rparr>),
        effects := effects expiredController @
          [DebugLog 1 ''Mark song as ready to scrobble'' LogLog,
           ScrobbleCall exampleReading,
           DebugLog 1 ''Scrobbled successfully'' LogLog, ModeChanged Scrobbled, SongUpdated]\<rparr>"
  by (simp add: scrobbledController_def expiredController_eq playingController_eq
      example_defs method_defs timer_defs song_defs Let_def)

lemma failedController_eq:
  "failedController =
     expiredController
       \<lparr>mode := Err,
        currentSong := Some (announcedSong\<lparr>flags := (flags announcedSong)
                               \<lparr>isReadyToScrobble := True\<rparr>\<rparr>),
        effects := effects expiredController @
          [DebugLog 1 ''Mark song as ready to scrobble'' LogLog,
           ScrobbleCall exampleReading,
           DebugLog 1 ''Scrobbling failed'' LogWarn, ModeChanged Err,
           ScrobbleStorage_addSong exampleReading [''lastfm'']]\<rparr>"
  by (simp add: failedController_def expiredController_eq playingController_eq
      example_defs failingEnv_def oneError_def errorResult_def method_defs timer_defs song_defs Let_def)

lemma all_ignore_none_ok:
  "areAllResults results RESULT_IGNORE \<Longrightarrow> \<not> failedCount results < length results"
  by (induction results) (auto simp add: areAllResults_def failedCount_def is_result_def)

lemma setSongNowPlaying_timers:
  "setSongNowPlaying env s = Inr s' \<Longrightarrow>
     playbackTimer s' = playbackTimer s \<and> replayDetectionTimer s' = replayDetectionTimer s"
proof (cases "currentSong s")
  case None
  assume "setSongNowPlaying env s = Inr s'"
  with None show ?thesis by (simp add: setSongNowPlaying_def withSong_def)
next
  case (Some sg)
  assume "setSongNowPlaying env s = Inr s'"
  with setSongNowPlaying_Inr [OF Some, of env] show ?thesis by auto
qed

lemma skipCurrentSong_timers:
  "skipCurrentSong s = Inr s' \<Longrightarrow>
     playbackTimer s' = playbackTimer s \<and> replayDetectionTimer s' = replayDetectionTimer s"
  by (cases "currentSong s")
     (auto simp add: skipCurrentSong_def seq_defs assertSongIsPlaying_def Let_def)

lemma processSong_expired:
  "processSong env s = Inr s' \<Longrightarrow> Timer_isExpired (playbackTimer s) \<Longrightarrow>
     playbackTimer s' = playbackTimer s \<and> replayDetectionTimer s' = replayDetectionTimer s"
  by (cases "currentSong s")
     (auto simp add: processSong_def seq_defs Let_def updateTimers_playbackTimer
        updateTimers_replayDetectionTimer split: if_splits sum.splits
        dest!: skipCurrentSong_timers setSongNowPlaying_timers)

lemma updateTimers_expired:
  "Timer_isExpired (playbackTimer s) \<Longrightarrow>
     updateTimers env d s = debugLog ''Attempt to update expired timers'' LogWarn s"
  by (simp add: updateTimers_def)

lemma processSong_Inr_song:
  assumes "currentSong s = Some sg"
  shows "\<exists>s'. processSong env s = Inr s'"
proof -
  define sg1 where "sg1 = Pipeline_process env sg"
  define sg2 where "sg2 = sg1\<lparr>flags := (flags sg1)\<lparr>isMarkedAsPlaying := False\<rparr>\<rparr>"
  define s3 where "s3 = updateTimers env (Song_getDuration sg2)
      ((debugLog ''Song finished processing'' LogLog ((setMode Loading s)\<lparr>currentSong := Some sg1\<rparr>))
         \<lparr>currentSong := Some sg2\<rparr>)"
  have song3: "currentSong s3 = Some sg2" by (simp add: s3_def)
  from setSongNowPlaying_Inr [OF song3, of env] obtain s4 where s4: "setSongNowPlaying env s3 = Inr s4"
    by blast
  have skip: "\<exists>s5. skipCurrentSong s3 = Inr s5" using skipCurrentSong_Inr [OF song3] by simp
  show ?thesis
    using assms s4 skip
    by (auto simp add: processSong_def seq_defs Let_def sg1_def [symmetric] sg2_def [symmetric]
        s3_def [symmetric])
qed

lemma updateSongDuration_expired:
  "updateSongDuration env n s = Inr s' \<Longrightarrow> Timer_isExpired (playbackTimer s) \<Longrightarrow>
     playbackTimer s' = playbackTimer s \<and> replayDetectionTimer s' = replayDetectionTimer s"
  by (cases "currentSong s")
     (auto simp add: updateSongDuration_def seq_defs Let_def updateTimers_playbackTimer
        updateTimers_replayDetectionTimer split: if_splits)

lemma target_pause_resume [simp]:
  "target (Timer_pause t) = target t" "target (Timer_resume t) = target t"
  by (simp_all add: Timer_pause_def Timer_resume_def)

lemma processCurrentState_expired:
  assumes st: "processCurrentState env r s = Inr s'" and ex: "Timer_isExpired (playbackTimer s)"
  shows "target (playbackTimer s') = target (playbackTimer s)
     \<and> target (replayDetectionTimer s') = target (replayDetectionTimer s)"
proof (cases "currentSong s")
  case None
  with st show ?thesis by (simp add: processCurrentState_def withSong_def)
next
  case (Some sg)
  show ?thesis
  proof (cases "isSkipped (flags sg)")
    case True
    with Some st show ?thesis by (simp add: processCurrentState_skipped)
  next
    case False
    from processCurrentState_Inr [OF Some False, of env r] st ex show ?thesis by auto
  qed
qed

lemma setSongNowPlaying_song:
  "setSongNowPlaying env s = Inr s' \<Longrightarrow> currentSong s' \<noteq> None"
  by (cases "currentSong s") (auto simp add: setSongNowPlaying_def seq_defs Let_def)

lemma skipCurrentSong_song:
  "skipCurrentSong s = Inr s' \<Longrightarrow> currentSong s' \<noteq> None"
  by (cases "currentSong s")
     (auto simp add: skipCurrentSong_def seq_defs assertSongIsPlaying_def Let_def)

lemma processSong_song:
  "processSong env s = Inr s' \<Longrightarrow> currentSong s' \<noteq> None"
  by (cases "currentSong s")
     (auto simp add: processSong_def seq_defs Let_def split: if_splits sum.splits
        dest!: skipCurrentSong_song setSongNowPlaying_song)

lemma processCurrentState_song:
  assumes "processCurrentState env r s = Inr s'"
  shows "currentSong s' \<noteq> None"
proof (cases "currentSong s")
  case None
  with assms show ?thesis by (simp add: processCurrentState_def withSong_def)
next
  case (Some sg)
  show ?thesis
  proof (cases "isSkipped (flags sg)")
    case True
    with Some assms show ?thesis by (simp add: processCurrentState_skipped)
  next
    case False
    from processCurrentState_Inr [OF Some False, of env r] assms show ?thesis by auto
  qed
qed

lemma resetSongData_song:
  "resetSongData env s = Inr s' \<Longrightarrow> currentSong s' \<noteq> None"
  by (cases "currentSong s")
     (auto simp add: resetSongData_def seq_defs assertSongIsPlaying_def Let_def split: sum.splits
        dest!: processSong_song)

lemma setUserSongData_song:
  "setUserSongData env dat s = Inr s' \<Longrightarrow> currentSong s' \<noteq> None"
  by (cases "currentSong s")
     (auto simp add: setUserSongData_def seq_defs assertSongIsPlaying_def Let_def
        split: sum.splits if_splits dest!: processSong_song)

lemma toggleLove_song:
  "toggleLove env l s = Inr s' \<Longrightarrow> currentSong s' \<noteq> None"
  by (cases "currentSong s")
     (auto simp add: toggleLove_def seq_defs assertSongIsPlaying_def Let_def split: if_splits)

lemma onPlaybackTimerExpired_Inr:
  assumes "currentSong s = Some sg"
  shows "\<exists>s'. onPlaybackTimerExpired env s = Inr s' \<and> currentSong s' \<noteq> None"
proof -
  define s2 where "s2 = (debugLog ''Mark song as ready to scrobble'' LogLog s)
     \<lparr>currentSong := Some (sg\<lparr>flags := (flags sg)\<lparr>isReadyToScrobble := True\<rparr>\<rparr>)\<rparr>"
  have song2: "currentSong s2 = Some (sg\<lparr>flags := (flags sg)\<lparr>isReadyToScrobble := True\<rparr>\<rparr>)"
    by (simp add: s2_def)
  have eq: "onPlaybackTimerExpired env s = (if isSkipped (flags sg) then Inr s2 else scrobbleSong env s2)"
    using assms by (simp add: onPlaybackTimerExpired_def withSong_def Let_def s2_def)
  from scrobbleSong_Inr [OF song2, of env] obtain s3 where
    "scrobbleSong env s2 = Inr s3" "currentSong s3 \<noteq> None" by (metis option.distinct(1))
  with eq song2 show ?thesis by auto
qed

lemma unprocessSong_Inr:
  "currentSong s = Some sg \<Longrightarrow> \<exists>s'. unprocessSong env s = Inr s' \<and> currentSong s' \<noteq> None"
  by (simp add: unprocessSong_def withSong_def Let_def)

lemma processStateChange_no_TypeError:
  "processStateChange env r s \<noteq> Inl TypeError"
proof (cases "currentSong s")
  case None
  then have ch: "isSongChanged r s" by (rule isSongChanged_None)
  have need: "\<not> isNeedToAddSongToScrobbleStorage env s"
    using None by (simp add: isNeedToAddSongToScrobbleStorage_def)
  obtain s' where "processSong env (processNewState r s) = Inr s'"
    using processSong_Inr_song [of "processNewState r s"] processNewState_simps(4) [of r s]
    by blast
  with None ch need show ?thesis
    by (simp add: processStateChange_def processEmptyState_no_song andThen_def)
next
  case (Some sg)
  obtain s1 where s1: "addSongToScrobbleStorage env None s = Inr s1"
    using addSongToScrobbleStorage_Inr [OF Some] by simp
  obtain s2 where s2: "processSong env (processNewState r s1) = Inr s2"
    using processSong_Inr_song [of "processNewState r s1"] processNewState_simps(4) [of r s1]
    by blast
  obtain s3 where s3: "processSong env (processNewState r s) = Inr s3"
    using processSong_Inr_song [of "processNewState r s"] processNewState_simps(4) [of r s]
    by blast
  obtain s4 where s4: "processEmptyState env r s = Inr s4"
    using processEmptyState_song [OF Some] by blast
  have cur: "\<exists>s5. processCurrentState env r s = Inr s5"
  proof (cases "isSkipped (flags sg)")
    case True
    with Some show ?thesis by (simp add: processCurrentState_skipped)
  next
    case False
    from processCurrentState_Inr [OF Some False, of env r] show ?thesis by blast
  qed
  from s1 s2 s3 s4 cur show ?thesis
    by (auto simp add: processStateChange_def andThen_def)
qed

lemma user_operations_no_TypeError:
  "resetSongData env s \<noteq> Inl TypeError"
  "skipCurrentSong s \<noteq> Inl TypeError"
  "setUserSongData env dat s \<noteq> Inl TypeError"
  "toggleLove env l s \<noteq> Inl TypeError"
proof -
  show "skipCurrentSong s \<noteq> Inl TypeError"
    by (cases "currentSong s")
       (simp_all add: skipCurrentSong_def seq_defs assertSongIsPlaying_def Let_def)
  show "toggleLove env l s \<noteq> Inl TypeError"
    by (cases "currentSong s")
       (simp_all add: toggleLove_def seq_defs assertSongIsPlaying_def Let_def)
  have rerun: "\<exists>s'. andThen (unprocessSong env s0) (processSong env) = Inr s'"
    if "currentSong s0 \<noteq> None" for s0
  proof -
    from that obtain sg where "currentSong s0 = Some sg" by auto
    from unprocessSong_Inr [OF this, of env] obtain s1 where
      s1: "unprocessSong env s0 = Inr s1" and "currentSong s1 \<noteq> None" by blast
    then obtain sg1 where "currentSong s1 = Some sg1" by auto
    from processSong_Inr_song [OF this, of env] s1 show ?thesis by (simp add: andThen_def)
  qed
  show "resetSongData env s \<noteq> Inl TypeError"
  proof (cases "currentSong s")
    case None
    then show ?thesis by (simp add: resetSongData_def seq_defs assertSongIsPlaying_def)
  next
    case (Some sg)
    from rerun [of "emit (SavedEdits_removeSongInfo (Song_resetInfo env sg))
                      (s\<lparr>currentSong := Some (Song_resetInfo env sg)\<rparr>)"]
    show ?thesis using Some
      by (auto simp add: resetSongData_def withSong_def assertSongIsPlaying_def Let_def
          andThen_def split: sum.splits)
  qed
  show "setUserSongData env dat s \<noteq> Inl TypeError"
  proof (cases "currentSong s")
    case None
    then show ?thesis by (simp add: setUserSongData_def seq_defs assertSongIsPlaying_def)
  next
    case (Some sg)
    from rerun [of "emit (SavedEdits_saveSongInfo sg dat) s"]
    show ?thesis using Some
      by (auto simp add: setUserSongData_def withSong_def assertSongIsPlaying_def Let_def
          andThen_def split: sum.splits)
  qed
qed

text \<open>
  A scheduled playback callback finds a current song: both are set by
  \<open>processNewState\<close> and cleared by \<open>resetState\<close>.
\<close>

lemma step_no_TypeError:
  assumes "callback (playbackTimer s) \<noteq> None \<longrightarrow> currentSong s \<noteq> None"
  shows "step env s e \<noteq> Inl TypeError"
proof (cases e)
  case PlaybackTimerFires
  show ?thesis
  proof (cases "callback (playbackTimer s) = Some OnPlaybackTimerExpired
                 \<and> Timer_isExpired (playbackTimer s)")
    case True
    with assms obtain sg where "currentSong s = Some sg" by auto
    from onPlaybackTimerExpired_Inr [OF this, of env] True PlaybackTimerFires show ?thesis
      by auto
  next
    case False
    with PlaybackTimerFires show ?thesis by auto
  qed
qed (simp_all add: processStateChange_no_TypeError user_operations_no_TypeError)

lemma callback_simps [simp]:
  "callback (Timer_pause t) = callback t"
  "callback (Timer_resume t) = callback t"
  "callback (Timer_update d t) = callback t"
  "callback (Timer_advance n t) = callback t"
  "callback (Timer_reset t) = None"
  by (simp_all add: timer_defs)

lemma step_scheduled_song:
  assumes inv: "callback (playbackTimer s) \<noteq> None \<longrightarrow> currentSong s \<noteq> None"
    and st: "step env s e = Inr s'"
  shows "callback (playbackTimer s') \<noteq> None \<longrightarrow> currentSong s' \<noteq> None"
proof (cases e)
  case (ProcessStateChange r)
  show ?thesis
  proof (cases "currentSong s")
    case None
    with inv have cb: "callback (playbackTimer s) = None" by simp
    have need: "\<not> isNeedToAddSongToScrobbleStorage env s"
      using None by (simp add: isNeedToAddSongToScrobbleStorage_def)
    from st ProcessStateChange None cb need show ?thesis
      by (auto simp add: processStateChange_def processEmptyState_no_song andThen_def
          isSongChanged_None split: if_splits dest!: processSong_song)
  next
    case (Some sg)
    obtain s4 where s4: "processEmptyState env r s = Inr s4"
      and cb4: "playbackTimer s4 = Timer_reset (playbackTimer s)"
      using processEmptyState_song [OF Some, of env r] by blast
    from st ProcessStateChange Some inv s4 cb4 show ?thesis
      by (auto simp add: processStateChange_def andThen_def split: if_splits sum.splits
          dest!: processSong_song processCurrentState_song)
  qed
next
  case (SetEnabled flag)
  with st inv show ?thesis by (cases flag) (auto simp add: setEnabled_def Let_def)
next
  case Finish
  with st show ?thesis by (auto simp add: finish_def)
next
  case ResetSongData
  with st show ?thesis by (auto dest!: resetSongData_song)
next
  case SkipCurrentSong
  with st show ?thesis by (auto dest!: skipCurrentSong_song)
next
  case (SetUserSongData dat)
  with st show ?thesis by (auto dest!: setUserSongData_song)
next
  case (ToggleLove l)
  with st show ?thesis by (auto dest!: toggleLove_song)
next
  case PlaybackTimerFires
  show ?thesis
  proof (cases "callback (playbackTimer s) = Some OnPlaybackTimerExpired
                 \<and> Timer_isExpired (playbackTimer s)")
    case True
    with inv obtain sg where "currentSong s = Some sg" by auto
    from onPlaybackTimerExpired_Inr [OF this, of env] True PlaybackTimerFires st show ?thesis
      by auto
  next
    case False
    with PlaybackTimerFires st inv show ?thesis by auto
  qed
next
  case ReplayTimerFires
  with st inv show ?thesis by (auto simp add: onReplayTimerExpired_def split: if_splits)
next
  case (Tick n)
  with st inv show ?thesis by auto
qed

lemma run_scheduled_song:
  "callback (playbackTimer s) \<noteq> None \<longrightarrow> currentSong s \<noteq> None \<Longrightarrow>
   callback (playbackTimer (run s es)) \<noteq> None \<longrightarrow> currentSong (run s es) \<noteq> None"
proof (induction es arbitrary: s)
  case Nil
  then show ?case by simp
next
  case (Cons a es)
  obtain env e where a: "a = (env, e)" by (cases a)
  have "callback (playbackTimer (after env s e)) \<noteq> None \<longrightarrow> currentSong (after env s e) \<noteq> None"
    using Cons.prems step_scheduled_song [of s env e]
    by (cases "step env s e") (simp_all add: after_def)
  from Cons.IH [OF this] a show ?case by simp
qed

text \<open>
  No \<^verbatim>\<open>null\<close> current song is dereferenced in a state reached from the constructor: an
  operation throws only the errors written in the source, before its first assignment.
\<close>

lemma reachable_no_TypeError:
  "step env (run (Controller_new tab conn en pod) es) e \<noteq> Inl TypeError"
proof -
  have "callback (playbackTimer (Controller_new tab conn en pod)) \<noteq> None
          \<longrightarrow> currentSong (Controller_new tab conn en pod) \<noteq> None"
    by (simp add: Controller_new_def Timer_new_def)
  from run_scheduled_song [OF this, of es] show ?thesis by (rule step_no_TypeError)
qed

lemma onBase_simps [simp]:
  "base (onBase f a) = f (base a)"
  "generation (onBase f a) = generation a"
  "pending (onBase f a) = pending a"
  "failures (onBase f a) = failures a"
  by (simp_all add: onBase_def)

lemma suspend_simps [simp]:
  "base (suspend p a) = base a"
  "generation (suspend p a) = generation a"
  "pending (suspend p a) = pending a @ [p]"
  "failures (suspend p a) = failures a"
  by (simp_all add: suspend_def)

lemma failWith_simps [simp]:
  "base (failWith e a) = base a"
  "generation (failWith e a) = generation a"
  "pending (failWith e a) = pending a"
  "failures (failWith e a) = failures a @ [e]"
  by (simp_all add: failWith_def)

lemma announced_or_invalid_frame:
  "currentSong s' = currentSong s \<Longrightarrow> announced_or_invalid s' = announced_or_invalid s"
  by (simp add: announced_or_invalid_def)
























section \<open>The claims\<close>

subsection \<open>Outcome of the submit action\<close>

text \<open>
  C1, as amended. For every submit action on a current track, with the result list of
  the scrobble manager: if the number of all results strictly exceeds the number of
  failed results, a result being failed when it is not \<open>Ok\<close>, which holds exactly
  when at least one result is \<open>Ok\<close>, then the track's \<open>isScrobbled\<close> flag is
  set and the mode becomes \<open>Scrobbled\<close>; else if every result is \<open>Ignore\<close> the
  mode becomes \<open>Ignored\<close>; else the mode becomes \<open>Err\<close>; in the last two cases the
  track is left as it was. In particular, when all results are \<open>Ignore\<close> the mode
  becomes \<open>Ignored\<close>.
\<close>

theorem scrobbleSong_mode:
  assumes "currentSong s = Some sg"
  shows "\<exists>s'. scrobbleSong env s = Inr s'
     \<and> (if failedCount (ScrobbleManager_scrobble env (Song_getInfo sg))
             < length (ScrobbleManager_scrobble env (Song_getInfo sg))
        then mode s' = Scrobbled
             \<and> currentSong s' = Some (sg\<lparr>flags := (flags sg)\<lparr>isScrobbled := True\<rparr>\<rparr>)
        else if areAllResults (ScrobbleManager_scrobble env (Song_getInfo sg)) RESULT_IGNORE
        then mode s' = Ignored \<and> currentSong s' = Some sg
        else mode s' = Err \<and> currentSong s' = Some sg)
     \<and> (failedCount (ScrobbleManager_scrobble env (Song_getInfo sg))
             < length (ScrobbleManager_scrobble env (Song_getInfo sg))
          \<longleftrightarrow> isAnyResult (ScrobbleManager_scrobble env (Song_getInfo sg)) RESULT_OK)
     \<and> (areAllResults (ScrobbleManager_scrobble env (Song_getInfo sg)) RESULT_IGNORE
          \<longrightarrow> mode s' = Ignored)"
  using scrobbleSong_Inr [OF assms, of env] failed_lt_iff_any_ok
    all_ignore_none_ok [of "ScrobbleManager_scrobble env (Song_getInfo sg)"]
  by auto

text \<open>
  The amended rule at work on the example inputs: one \<open>Ok\<close> among three results, one
  \<open>Ignore\<close>, one \<open>Error\<close>.
\<close>

theorem scrobbleSong_mode_witness:
  "currentSong expiredController = Some announcedSong
   \<and> mode (stateOr expiredController (scrobbleSong partialFailureEnv expiredController)) = Scrobbled
   \<and> mode (stateOr expiredController (scrobbleSong ignoringEnv expiredController)) = Ignored
   \<and> mode (stateOr expiredController (scrobbleSong failingEnv expiredController)) = Err"
proof -
  have h: "currentSong expiredController = Some announcedSong"
    by (simp add: expiredController_eq playingController_eq)
  from scrobbleSong_mode [OF h, of partialFailureEnv]
  have a: "mode (stateOr expiredController (scrobbleSong partialFailureEnv expiredController)) = Scrobbled"
    by (auto simp add: stateOr_def failedCount_def partialFailureEnv_def exampleEnv_def
        oneOkTwoErrors_def okResult_def errorResult_def is_result_def)
  from scrobbleSong_mode [OF h, of ignoringEnv]
  have b: "mode (stateOr expiredController (scrobbleSong ignoringEnv expiredController)) = Ignored"
    by (auto simp add: stateOr_def failedCount_def ignoringEnv_def exampleEnv_def
        oneIgnore_def ignoreResult_def is_result_def areAllResults_def)
  from scrobbleSong_mode [OF h, of failingEnv]
  have c: "mode (stateOr expiredController (scrobbleSong failingEnv expiredController)) = Err"
    by (auto simp add: stateOr_def failedCount_def failingEnv_def exampleEnv_def
        oneError_def errorResult_def is_result_def areAllResults_def)
  from h a b c show ?thesis by simp
qed

text \<open>
  C1 as first stated compares the non-failed results with the failed ones. With the
  results \<open>Ok\<close>, \<open>Error\<close>, \<open>Error\<close> one result is non-failed and two are failed,
  and not every result is \<open>Ignore\<close>, so the mode would be \<open>Err\<close>; the source compares
  \<^verbatim>\<open>results.length\<close> with the number of failed results (\<^verbatim>\<open>isAnyOkResult\<close>) and
  the mode is \<open>Scrobbled\<close>.
\<close>

theorem scrobbleSong_majority_counterexample:
  "currentSong expiredController = Some announcedSong
   \<and> ScrobbleManager_scrobble partialFailureEnv (Song_getInfo announcedSong)
       = [okResult ''lastfm'', errorResult ''librefm'', errorResult ''listenbrainz'']
   \<and> nonFailedCount (ScrobbleManager_scrobble partialFailureEnv (Song_getInfo announcedSong)) = 1
   \<and> failedCount (ScrobbleManager_scrobble partialFailureEnv (Song_getInfo announcedSong)) = 2
   \<and> \<not> areAllResults (ScrobbleManager_scrobble partialFailureEnv (Song_getInfo announcedSong)) RESULT_IGNORE
   \<and> mode (after partialFailureEnv expiredController PlaybackTimerFires) = Scrobbled"
  by (simp add: expiredController_eq playingController_eq example_defs partialFailureEnv_def oneOkTwoErrors_def errorResult_def method_defs timer_defs
      song_defs Let_def failedCount_def nonFailedCount_def)

subsection \<open>Queueing of the failed backends\<close>

text \<open>
  C2, as amended. After every submit action on a current track, the backend ids whose
  result is not \<open>Ok\<close> (\<open>Error\<close> and \<open>Ignore\<close> alike), in the order of the results,
  are queued to the scrobble storage in one entry with the track's information, whether
  the track is valid or not; when every result is \<open>Ok\<close> nothing is queued. The ids of
  \<open>Ok\<close> results are not part of the entry.
\<close>

theorem scrobbleSong_storage:
  assumes "currentSong s = Some sg"
  shows "\<exists>s'. scrobbleSong env s = Inr s'
     \<and> storageAdds (effects s') = storageAdds (effects s) @
         (if failedIds (ScrobbleManager_scrobble env (Song_getInfo sg)) = [] then []
          else [ScrobbleStorage_addSong (Song_getInfo sg)
                  (failedIds (ScrobbleManager_scrobble env (Song_getInfo sg)))])"
  using scrobbleSong_Inr [OF assms, of env] by auto

text \<open>
  On the example: of \<open>Ok\<close>, \<open>Error\<close>, \<open>Error\<close> the two failing backends are
  queued.
\<close>

theorem scrobbleSong_storage_witness:
  "currentSong expiredController = Some announcedSong
   \<and> storageAdds (effects (stateOr expiredController (scrobbleSong partialFailureEnv expiredController)))
       = [ScrobbleStorage_addSong exampleReading [''librefm'', ''listenbrainz'']]"
proof -
  have h: "currentSong expiredController = Some announcedSong"
    by (simp add: expiredController_eq playingController_eq)
  have e: "storageAdds (effects expiredController) = []"
    by (simp add: expiredController_eq playingController_eq)
  from scrobbleSong_storage [OF h, of partialFailureEnv] h e show ?thesis
    by (auto simp add: stateOr_def failedIds_def partialFailureEnv_def exampleEnv_def
        oneOkTwoErrors_def okResult_def errorResult_def is_result_def getScrobblerId_def
        Song_getInfo_def announcedSong_def)
qed

text \<open>
  C2 as first stated queues only \<open>Error\<close> results, and only for an invalid track.
  The example track is valid and its one backend answers \<open>Ignore\<close>, so no result is
  an \<open>Error\<close>; when the playback timer fires, that backend is queued all the same.
\<close>

theorem scrobbleSong_storage_counterexample:
  "currentSong expiredController = Some announcedSong
   \<and> Song_isValid announcedSong
   \<and> ScrobbleManager_scrobble ignoringEnv (Song_getInfo announcedSong) = [ignoreResult ''lastfm'']
   \<and> errorIds (ScrobbleManager_scrobble ignoringEnv (Song_getInfo announcedSong)) = []
   \<and> storageAdds (effects expiredController) = []
   \<and> storageAdds (effects (after ignoringEnv expiredController PlaybackTimerFires))
       = [ScrobbleStorage_addSong exampleReading [''lastfm'']]"
  by (simp add: expiredController_eq playingController_eq example_defs ignoringEnv_def oneIgnore_def ignoreResult_def method_defs timer_defs
      song_defs Let_def errorIds_def)

subsection \<open>Song-change detection\<close>

text \<open>
  C3. Song-change detection is true if and only if one of the identity fields
  \<open>artist\<close>, \<open>track\<close>, \<open>album\<close>, \<open>uniqueID\<close> of the reading differs from the
  current track's; it does not depend on the reading's \<open>duration\<close>, \<open>currentTime\<close>,
  \<open>isPlaying\<close> and \<open>trackArt\<close>; without a current track it is always true. This
  holds for every reading, empty or not.
\<close>

theorem isSongChanged_identity_fields:
  "isSongChanged r s =
     (case currentSong s of
        None \<Rightarrow> True
      | Some sg \<Rightarrow> artist r \<noteq> artist (parsed sg) \<or> track r \<noteq> track (parsed sg)
                 \<or> album r \<noteq> album (parsed sg) \<or> uniqueID r \<noteq> uniqueID (parsed sg))
   \<and> isSongChanged (r\<lparr>duration := d, currentTime := t, isPlaying := p, trackArt := a\<rparr>) s
       = isSongChanged r s"
  by (simp add: isSongChanged_def fieldsToCheckSongChange_def split: option.splits)

text \<open>
  On the examples: no current track; the same song five seconds later; another
  track.
\<close>

theorem isSongChanged_identity_fields_witness:
  "isSongChanged exampleReading freshController
   \<and> \<not> isSongChanged laterReading playingController
   \<and> isSongChanged otherReading playingController"
  using isSongChanged_identity_fields [of exampleReading freshController]
    isSongChanged_identity_fields [of laterReading playingController]
    isSongChanged_identity_fields [of otherReading playingController]
  by (simp add: playingController_eq example_defs laterReading_def otherReading_def)

subsection \<open>The announce latch\<close>




subsection \<open>Announce at the end of a pipeline run\<close>

text \<open>
  C5. A pipeline run that leaves the track valid, not an excluded podcast, and playing:
  the announce call is made, once, if and only if the playback timer, as the run's
  \<open>updateTimers\<close> leaves it, is not expired; a timer expired before the run is still
  expired then. When it is expired the call is skipped and the track is not marked as
  playing; in both cases the \<open>SongNowPlaying\<close> event is dispatched, once.
\<close>

theorem processSong_announce:
  assumes sg: "currentSong s = Some sg"
    and valid: "Song_isValid (Pipeline_process env sg)"
    and pod: "shouldScrobblePodcasts s \<or> \<not> isPodcast (parsed (Pipeline_process env sg))"
    and playing: "isPlaying (parsed (Pipeline_process env sg))"
  shows "\<exists>s'. processSong env s = Inr s'
     \<and> playbackTimer s' = playbackTimer (updateTimers env (Song_getDuration (Pipeline_process env sg)) s)
     \<and> announceCalls (effects s') = announceCalls (effects s) @
         (if Timer_isExpired (playbackTimer s') then []
          else [SendNowPlayingCall (Song_getInfo (Pipeline_process env sg))])
     \<and> dispatchedEvents (effects s') =
         dispatchedEvents (effects s) @ [ControllerEventDispatched SongNowPlaying]
     \<and> map_option (\<lambda>sg'. isMarkedAsPlaying (flags sg')) (currentSong s')
         = Some (\<not> Timer_isExpired (playbackTimer s'))
     \<and> (Timer_isExpired (playbackTimer s) \<longrightarrow> Timer_isExpired (playbackTimer s'))"
proof -
  define sg2 where
    "sg2 = (Pipeline_process env sg)\<lparr>flags := (flags (Pipeline_process env sg))\<lparr>isMarkedAsPlaying := False\<rparr>\<rparr>"
  define s3 where
    "s3 = updateTimers env (Song_getDuration sg2)
            ((debugLog ''Song finished processing'' LogLog
               ((setMode Loading s)\<lparr>currentSong := Some (Pipeline_process env sg)\<rparr>))
               \<lparr>currentSong := Some sg2\<rparr>)"
  have dur: "Song_getDuration sg2 = Song_getDuration (Pipeline_process env sg)"
    and info: "Song_getInfo sg2 = Song_getInfo (Pipeline_process env sg)"
    by (simp_all add: sg2_def song_defs)
  have s3_song: "currentSong s3 = Some sg2" by (simp add: s3_def)
  have s3_timer: "playbackTimer s3 =
      playbackTimer (updateTimers env (Song_getDuration (Pipeline_process env sg)) s)"
    by (simp add: s3_def updateTimers_playbackTimer dur)
  have s3_ann: "announceCalls (effects s3) = announceCalls (effects s)"
    and s3_ev: "dispatchedEvents (effects s3) = dispatchedEvents (effects s)"
    by (simp_all add: s3_def)
  have expired_kept: "Timer_isExpired (playbackTimer s) \<longrightarrow> Timer_isExpired (playbackTimer s3)"
    by (simp add: s3_timer updateTimers_playbackTimer)
  have unfold: "processSong env s =
      (if \<not> Timer_isExpired (playbackTimer s3)
       then andThen (setSongNowPlaying env s3) (\<lambda>s4. Inr (onSongUpdated s4))
       else Inr (onSongUpdated (dispatchEvent SongNowPlaying s3)))"
    using sg valid playing pod
    by (cases "shouldScrobblePodcasts s")
       (simp_all add: processSong_def seq_defs Let_def s3_def sg2_def song_defs)
  show ?thesis
  proof (cases "Timer_isExpired (playbackTimer s3)")
    case True
    with unfold s3_timer s3_ann s3_ev s3_song expired_kept show ?thesis
      by (simp add: sg2_def)
  next
    case False
    from setSongNowPlaying_Inr [OF s3_song, of env] obtain s4 where
      s4: "setSongNowPlaying env s3 = Inr s4"
      and c4: "currentSong s4 = Some (sg2\<lparr>flags := (flags sg2)\<lparr>isMarkedAsPlaying := True\<rparr>\<rparr>)"
      and t4: "playbackTimer s4 = playbackTimer s3"
      and a4: "announceCalls (effects s4) =
                 announceCalls (effects s3) @ [SendNowPlayingCall (Song_getInfo sg2)]"
      and e4: "dispatchedEvents (effects s4) =
                 dispatchedEvents (effects s3) @ [ControllerEventDispatched SongNowPlaying]"
      by blast
    have res: "processSong env s = Inr (onSongUpdated s4)"
      using unfold False s4 by (simp add: andThen_def)
    have "announceCalls (effects (onSongUpdated s4)) = announceCalls (effects s4)"
      and "dispatchedEvents (effects (onSongUpdated s4)) = dispatchedEvents (effects s4)"
      by simp_all
    with res False c4 t4 a4 e4 s3_timer s3_ann s3_ev expired_kept info show ?thesis
      by simp
  qed
qed

text \<open>
  On the examples: the pipeline runs again on the playing track, before and after its
  playback timer expired.
\<close>

theorem processSong_announce_witness:
  "currentSong playingController = Some announcedSong
   \<and> Song_isValid (Pipeline_process exampleEnv announcedSong)
   \<and> (shouldScrobblePodcasts playingController
        \<or> \<not> isPodcast (parsed (Pipeline_process exampleEnv announcedSong)))
   \<and> isPlaying (parsed (Pipeline_process exampleEnv announcedSong))
   \<and> announceCalls (effects (stateOr freshController (processSong exampleEnv playingController)))
       = [SendNowPlayingCall exampleReading, SendNowPlayingCall exampleReading]
   \<and> announceCalls (effects (stateOr freshController (processSong exampleEnv expiredController)))
       = [SendNowPlayingCall exampleReading]
   \<and> dispatchedEvents (effects (stateOr freshController (processSong exampleEnv expiredController)))
       = [ControllerEventDispatched Reset, ControllerEventDispatched SongNowPlaying,
          ControllerEventDispatched SongNowPlaying]"
proof -
  have song: "currentSong playingController = Some announcedSong" by (simp add: playingController_eq)
  have song': "currentSong expiredController = Some announcedSong"
    by (simp add: expiredController_eq playingController_eq)
  have valid: "Song_isValid (Pipeline_process exampleEnv announcedSong)"
    by (simp add: example_defs song_defs)
  have pod: "shouldScrobblePodcasts playingController
        \<or> \<not> isPodcast (parsed (Pipeline_process exampleEnv announcedSong))"
    by (simp add: playingController_eq)
  have pod': "shouldScrobblePodcasts expiredController
        \<or> \<not> isPodcast (parsed (Pipeline_process exampleEnv announcedSong))"
    by (simp add: expiredController_eq playingController_eq)
  have playing: "isPlaying (parsed (Pipeline_process exampleEnv announcedSong))"
    by (simp add: example_defs)
  have ex: "Timer_isExpired (playbackTimer expiredController)"
    by (simp add: expiredController_eq Timer_isExpired_def)
  have nex: "\<not> Timer_isExpired (playbackTimer
       (updateTimers exampleEnv (Song_getDuration (Pipeline_process exampleEnv announcedSong))
          playingController))"
    by (simp add: updateTimers_playbackTimer playingController_eq example_defs song_defs timer_defs
        getSecondsToScrobble_def)
  have a: "announceCalls (effects (stateOr freshController (processSong exampleEnv playingController)))
       = [SendNowPlayingCall exampleReading, SendNowPlayingCall exampleReading]"
    using processSong_announce [OF song valid pod playing] nex
    by (auto simp add: stateOr_def playingController_eq example_defs song_defs)
  have b: "announceCalls (effects (stateOr freshController (processSong exampleEnv expiredController)))
       = [SendNowPlayingCall exampleReading]
     \<and> dispatchedEvents (effects (stateOr freshController (processSong exampleEnv expiredController)))
       = [ControllerEventDispatched Reset, ControllerEventDispatched SongNowPlaying,
          ControllerEventDispatched SongNowPlaying]"
    using processSong_announce [OF song' valid pod' playing] ex
    by (auto simp add: stateOr_def expiredController_eq playingController_eq)
  from song valid pod playing a b show ?thesis by simp
qed

subsection \<open>A reading of the current song\<close>

text \<open>
  C6, as amended. In every state a controller reaches from its construction, for every
  non-empty reading whose identity fields equal the current track's, with the replay
  flag down and the track not skipped: \<open>processStateChange\<close> merges the reading's
  \<open>currentTime\<close>, \<open>isPlaying\<close> and \<open>trackArt\<close> into the track; if the reading's
  duration is neither \<^verbatim>\<open>null\<close> nor zero and differs from the known one, the duration is
  updated, and both timers are rebased (the playback timer to the seconds to scrobble,
  the replay timer to the duration) provided the track is valid, the playback timer is
  not expired and the seconds to scrobble are not \<open>-1\<close>; if \<open>isPlaying\<close> toggled,
  both timers are then resumed or paused accordingly.
\<close>

theorem processStateChange_same_song:
  assumes reach: "s = run (Controller_new tab conn en pod) es"
    and ne: "\<not> util_isStateEmpty env r"
    and song: "currentSong s = Some sg"
    and same: "\<not> isSongChanged r s"
    and nr: "\<not> isReplayingSong s"
    and ns: "\<not> isSkipped (flags sg)"
  shows "\<exists>s' sg'. processStateChange env r s = Inr s' \<and> currentSong s' = Some sg'
     \<and> parsed sg' = (parsed sg)
          \<lparr>duration := (if isNeedToUpdateDuration r sg then duration r else duration (parsed sg)),
           currentTime := currentTime r, isPlaying := isPlaying r, trackArt := trackArt r\<rparr>
     \<and> playbackTimer s' =
         (if isPlaying (parsed sg) = isPlaying r then (\<lambda>t. t)
          else if isPlaying r then Timer_resume else Timer_pause)
           (if isNeedToUpdateDuration r sg \<and> Song_isValid sg
               \<and> \<not> Timer_isExpired (playbackTimer s)
               \<and> getSecondsToScrobble env (duration r) \<noteq> - 1
            then Timer_update (Some (getSecondsToScrobble env (duration r))) (playbackTimer s)
            else playbackTimer s)
     \<and> replayDetectionTimer s' =
         (if isPlaying (parsed sg) = isPlaying r then (\<lambda>t. t)
          else if isPlaying r then Timer_resume else Timer_pause)
           (if isNeedToUpdateDuration r sg \<and> Song_isValid sg
               \<and> \<not> Timer_isExpired (playbackTimer s)
               \<and> getSecondsToScrobble env (duration r) \<noteq> - 1
            then Timer_update (duration r) (replayDetectionTimer s)
            else replayDetectionTimer s)"
proof -
  have "currentSong (Controller_new tab conn en pod) \<noteq> None
          \<longrightarrow> isControllerEnabled (Controller_new tab conn en pod)"
    by (simp add: Controller_new_def)
  from run_song_enabled [OF this, of es] reach song have enabled: "isControllerEnabled s" by simp
  have "processStateChange env r s = processCurrentState env r s"
    using enabled ne same nr by (rule processStateChange_current)
  with processCurrentState_Inr [OF song ns, of env r] show ?thesis by auto
qed

text \<open>
  On the example: the playing track's reading comes with a duration of 300 instead of
  240 seconds.
\<close>

theorem processStateChange_same_song_witness:
  "playingController = run (Controller_new 1 ''connector'' True True)
                          [(exampleEnv, ProcessStateChange exampleReading)]
   \<and> \<not> util_isStateEmpty exampleEnv longerReading
   \<and> currentSong playingController = Some announcedSong
   \<and> \<not> isSongChanged longerReading playingController
   \<and> \<not> isReplayingSong playingController
   \<and> \<not> isSkipped (flags announcedSong)
   \<and> map_option Song_getDuration
        (currentSong (stateOr freshController (processStateChange exampleEnv longerReading playingController)))
       = Some (Some 300)
   \<and> target (playbackTimer
        (stateOr freshController (processStateChange exampleEnv longerReading playingController)))
       = Some 150
   \<and> target (replayDetectionTimer
        (stateOr freshController (processStateChange exampleEnv longerReading playingController)))
       = Some 300"
proof -
  have reach: "playingController = run (Controller_new 1 ''connector'' True True)
                          [(exampleEnv, ProcessStateChange exampleReading)]"
    by (simp add: playingController_def freshController_def)
  have ne: "\<not> util_isStateEmpty exampleEnv longerReading" by (simp add: example_defs longerReading_def)
  have song: "currentSong playingController = Some announcedSong" by (simp add: playingController_eq)
  have same: "\<not> isSongChanged longerReading playingController"
    by (simp add: isSongChanged_def fieldsToCheckSongChange_def playingController_eq example_defs longerReading_def)
  have nr: "\<not> isReplayingSong playingController" by (simp add: playingController_eq)
  have ns: "\<not> isSkipped (flags announcedSong)" by (simp add: announcedSong_def)
  from processStateChange_same_song [OF reach ne song same nr ns] reach ne song same nr ns
  show ?thesis
    by (auto simp add: stateOr_def playingController_eq example_defs longerReading_def song_defs timer_defs
        isNeedToUpdateDuration_def getSecondsToScrobble_def)
qed

text \<open>
  C6 as first stated holds for every reading of the current song. On a skipped track
  nothing is merged: the reading's \<open>currentTime\<close> of 5 is not taken. A new duration
  is taken and the timers are as they were on a track that is not valid, on a track
  whose playback timer is expired, and for a duration of 10 seconds, too short to
  scrobble. A duration of zero is not taken.
\<close>

theorem processStateChange_same_song_counterexample:
  "isControllerEnabled skippedController
   \<and> \<not> util_isStateEmpty exampleEnv laterReading
   \<and> \<not> isSongChanged laterReading skippedController
   \<and> \<not> isReplayingSong skippedController
   \<and> currentTime laterReading = Some 5
   \<and> map_option Song_getInfo
        (currentSong (after exampleEnv skippedController (ProcessStateChange laterReading)))
       = Some exampleReading
   \<and> currentTime exampleReading = Some 0
   \<and> \<not> isSongChanged longerReading unrecognizedController
   \<and> \<not> isReplayingSong unrecognizedController
   \<and> map_option Song_getDuration
        (currentSong (after unrecognizingEnv unrecognizedController (ProcessStateChange longerReading)))
       = Some (Some 300)
   \<and> playbackTimer (after unrecognizingEnv unrecognizedController (ProcessStateChange longerReading))
       = playbackTimer unrecognizedController
   \<and> replayDetectionTimer (after unrecognizingEnv unrecognizedController (ProcessStateChange longerReading))
       = replayDetectionTimer unrecognizedController
   \<and> \<not> isSongChanged longerReading expiredController
   \<and> map_option Song_getDuration
        (currentSong (after exampleEnv expiredController (ProcessStateChange longerReading)))
       = Some (Some 300)
   \<and> playbackTimer (after exampleEnv expiredController (ProcessStateChange longerReading))
       = playbackTimer expiredController
   \<and> replayDetectionTimer (after exampleEnv expiredController (ProcessStateChange longerReading))
       = replayDetectionTimer expiredController
   \<and> \<not> isSongChanged shortReading playingController
   \<and> map_option Song_getDuration
        (currentSong (after exampleEnv playingController (ProcessStateChange shortReading)))
       = Some (Some 10)
   \<and> playbackTimer (after exampleEnv playingController (ProcessStateChange shortReading))
       = playbackTimer playingController
   \<and> replayDetectionTimer (after exampleEnv playingController (ProcessStateChange shortReading))
       = replayDetectionTimer playingController
   \<and> \<not> isSongChanged zeroReading playingController
   \<and> duration zeroReading = Some 0
   \<and> map_option Song_getDuration
        (currentSong (after exampleEnv playingController (ProcessStateChange zeroReading)))
       = Some (Some 240)"
  by (simp add: skippedController_eq unrecognizedController_eq expiredController_eq
      playingController_eq example_defs unrecognizingEnv_def laterReading_def longerReading_def
      shortReading_def zeroReading_def method_defs timer_defs song_defs Let_def)

subsection \<open>An empty reading\<close>

text \<open>
  C7. In every state a controller reaches from its construction in which a track
  exists, an empty reading first evaluates the pending-submission heuristic and, if it
  holds, adds the track to the scrobble storage for the bound backends; then the
  controller is reset: the \<open>Reset\<close> event is dispatched, both timers are reset, the
  track is cleared and the mode becomes \<open>Base\<close>. If the reading claims
  \<open>isPlaying\<close>, a warning is logged, and nothing else differs.
\<close>

theorem processEmptyState_reset:
  assumes reach: "s = run (Controller_new tab conn en pod) es"
    and song: "currentSong s = Some sg"
    and empty: "util_isStateEmpty env r"
  shows "\<exists>s'. processStateChange env r s = Inr s'
     \<and> currentSong s' = None \<and> mode s' = Base
     \<and> playbackTimer s' = Timer_reset (playbackTimer s)
     \<and> replayDetectionTimer s' = Timer_reset (replayDetectionTimer s)
     \<and> isReplayingSong s' = isReplayingSong s
     \<and> isControllerEnabled s' = isControllerEnabled s
     \<and> effects s' = effects s
          @ [DebugLog (tabId s) ''Received empty state - resetting'' LogLog]
          @ (if isNeedToAddSongToScrobbleStorage env s
             then [ScrobbleStorage_addSong (Song_getInfo sg) (ScrobbleManager_getBoundScrobblerIds env)]
             else [])
          @ [ControllerEventDispatched Reset, ModeChanged Base]
          @ (if isPlaying r
             then [DebugLog (tabId s)
                    ''State from connector doesn't contain enough information about the playing track''
                    LogWarn]
             else [])"
proof -
  have "currentSong (Controller_new tab conn en pod) \<noteq> None
          \<longrightarrow> isControllerEnabled (Controller_new tab conn en pod)"
    by (simp add: Controller_new_def)
  from run_song_enabled [OF this, of es] reach song have en: "isControllerEnabled s" by simp
  have "processStateChange env r s = processEmptyState env r s"
    using en empty by (simp add: processStateChange_def)
  with processEmptyState_song [OF song, of env r] show ?thesis by auto
qed

text \<open>
  On the examples: an empty reading that claims to be playing arrives at the playing
  controller, whose track is valid, and at the controller whose unrecognized track has
  played for 130 seconds, which is added to the storage first.
\<close>

theorem processEmptyState_reset_witness:
  "playingController = run (Controller_new 1 ''connector'' True True)
                          [(exampleEnv, ProcessStateChange exampleReading)]
   \<and> currentSong playingController = Some announcedSong
   \<and> util_isStateEmpty exampleEnv emptyReading
   \<and> mode (stateOr playingController (processStateChange exampleEnv emptyReading playingController)) = Base
   \<and> currentSong (stateOr playingController (processStateChange exampleEnv emptyReading playingController))
       = None
   \<and> effects (stateOr playingController (processStateChange exampleEnv emptyReading playingController))
       = effects playingController @
         [DebugLog 1 ''Received empty state - resetting'' LogLog,
          ControllerEventDispatched Reset, ModeChanged Base,
          DebugLog 1 ''State from connector doesn't contain enough information about the playing track''
            LogWarn]
   \<and> unrecognizedController = run (Controller_new 1 ''connector'' True True)
                          [(unrecognizingEnv, ProcessStateChange exampleReading),
                           (unrecognizingEnv, Tick 130)]
   \<and> effects (stateOr unrecognizedController
                 (processStateChange exampleEnv emptyReading unrecognizedController))
       = effects unrecognizedController @
         [DebugLog 1 ''Received empty state - resetting'' LogLog,
          ScrobbleStorage_addSong exampleReading [''lastfm''],
          ControllerEventDispatched Reset, ModeChanged Base,
          DebugLog 1 ''State from connector doesn't contain enough information about the playing track''
            LogWarn]"
proof -
  have reach: "playingController = run (Controller_new 1 ''connector'' True True)
                          [(exampleEnv, ProcessStateChange exampleReading)]"
    by (simp add: playingController_def freshController_def)
  have song: "currentSong playingController = Some announcedSong" by (simp add: playingController_eq)
  have empty: "util_isStateEmpty exampleEnv emptyReading" by (simp add: example_defs emptyReading_def)
  have need: "\<not> isNeedToAddSongToScrobbleStorage exampleEnv playingController"
    by (simp add: isNeedToAddSongToScrobbleStorage_def playingController_eq announcedSong_def
        Song_isValid_def)
  have tab: "tabId playingController = 1" by (simp add: playingController_eq)
  have playing: "isPlaying emptyReading" by (simp add: emptyReading_def)
  have reach': "unrecognizedController = run (Controller_new 1 ''connector'' True True)
                          [(unrecognizingEnv, ProcessStateChange exampleReading),
                           (unrecognizingEnv, Tick 130)]"
    by (simp add: unrecognizedController_def freshController_def)
  have song': "currentSong unrecognizedController = Some (Song_new exampleReading)"
    by (simp add: unrecognizedController_eq)
  have need': "isNeedToAddSongToScrobbleStorage exampleEnv unrecognizedController"
    by (simp add: isNeedToAddSongToScrobbleStorage_def unrecognizedController_eq example_defs
        song_defs getSecondsToScrobble_def Timer_getElapsed_def)
  have tab': "tabId unrecognizedController = 1" by (simp add: unrecognizedController_eq)
  have a: "mode (stateOr playingController (processStateChange exampleEnv emptyReading playingController)) = Base
   \<and> currentSong (stateOr playingController (processStateChange exampleEnv emptyReading playingController))
       = None
   \<and> effects (stateOr playingController (processStateChange exampleEnv emptyReading playingController))
       = effects playingController @
         [DebugLog 1 ''Received empty state - resetting'' LogLog,
          ControllerEventDispatched Reset, ModeChanged Base,
          DebugLog 1 ''State from connector doesn't contain enough information about the playing track''
            LogWarn]"
    using processEmptyState_reset [OF reach song empty] need tab playing
    by (auto simp add: stateOr_def)
  have b: "effects (stateOr unrecognizedController
                 (processStateChange exampleEnv emptyReading unrecognizedController))
       = effects unrecognizedController @
         [DebugLog 1 ''Received empty state - resetting'' LogLog,
          ScrobbleStorage_addSong exampleReading [''lastfm''],
          ControllerEventDispatched Reset, ModeChanged Base,
          DebugLog 1 ''State from connector doesn't contain enough information about the playing track''
            LogWarn]"
    using processEmptyState_reset [OF reach' song' empty] need' tab' playing
    by (auto simp add: stateOr_def song_defs exampleEnv_def)
  from reach song empty a reach' b show ?thesis by simp
qed

subsection \<open>The pending-submission heuristic\<close>

text \<open>
  C8. \<open>isNeedToAddSongToScrobbleStorage\<close> is true if and only if a current track
  exists, it is not valid, the seconds to scrobble computed from its duration are not
  \<open>-1\<close>, and the playback timer's elapsed time has reached them.
\<close>

theorem isNeedToAddSongToScrobbleStorage_iff:
  "isNeedToAddSongToScrobbleStorage env s =
     (case currentSong s of
        None \<Rightarrow> False
      | Some sg \<Rightarrow> \<not> Song_isValid sg
          \<and> getSecondsToScrobble env (Song_getDuration sg) \<noteq> - 1
          \<and> getSecondsToScrobble env (Song_getDuration sg) \<le> Timer_getElapsed (playbackTimer s))"
  by (auto simp add: isNeedToAddSongToScrobbleStorage_def Let_def split: option.splits)

text \<open>
  On the examples: an unrecognized track played for 130 seconds; a valid track; no
  track.
\<close>

theorem isNeedToAddSongToScrobbleStorage_iff_witness:
  "isNeedToAddSongToScrobbleStorage exampleEnv unrecognizedController
   \<and> \<not> isNeedToAddSongToScrobbleStorage exampleEnv expiredController
   \<and> \<not> isNeedToAddSongToScrobbleStorage exampleEnv freshController"
  using isNeedToAddSongToScrobbleStorage_iff [of exampleEnv unrecognizedController]
    isNeedToAddSongToScrobbleStorage_iff [of exampleEnv expiredController]
    isNeedToAddSongToScrobbleStorage_iff [of exampleEnv freshController]
  by (simp add: unrecognizedController_eq expiredController_eq playingController_eq
      example_defs song_defs getSecondsToScrobble_def Timer_getElapsed_def)

subsection \<open>Failures of the user operations\<close>

text \<open>
  C9. Without a current track each of \<open>resetSongData\<close>, \<open>skipCurrentSong\<close>,
  \<open>setUserSongData\<close> and \<open>toggleLove\<close> throws, before it does anything else;
  \<open>setUserSongData\<close> also throws when the current track is already scrobbled, and
  \<open>toggleLove\<close> when the current track is not valid.
\<close>

theorem user_operations_fail:
  "(currentSong s = None \<longrightarrow>
      resetSongData env s = Inl (Error ''No song is now playing'')
    \<and> skipCurrentSong s = Inl (Error ''No song is now playing'')
    \<and> setUserSongData env dat s = Inl (Error ''No song is now playing'')
    \<and> toggleLove env loveStatus s = Inl (Error ''No song is now playing''))
 \<and> (\<forall>sg. currentSong s = Some sg \<and> isScrobbled (flags sg) \<longrightarrow>
      setUserSongData env dat s = Inl (Error ''Unable to set user data for scrobbled song''))
 \<and> (\<forall>sg. currentSong s = Some sg \<and> \<not> Song_isValid sg \<longrightarrow>
      toggleLove env loveStatus s = Inl (Error ''No valid song is now playing''))"
  by (simp add: resetSongData_def skipCurrentSong_def setUserSongData_def toggleLove_def
      andThen_def withSong_def assertSongIsPlaying_def)

text \<open>
  On the examples: a fresh controller, a scrobbled track, an unrecognized track.
\<close>

theorem user_operations_fail_witness:
  "currentSong freshController = None
   \<and> resetSongData exampleEnv freshController = Inl (Error ''No song is now playing'')
   \<and> skipCurrentSong freshController = Inl (Error ''No song is now playing'')
   \<and> setUserSongData exampleEnv exampleEdits freshController = Inl (Error ''No song is now playing'')
   \<and> toggleLove exampleEnv Loved freshController = Inl (Error ''No song is now playing'')
   \<and> setUserSongData exampleEnv exampleEdits scrobbledController
       = Inl (Error ''Unable to set user data for scrobbled song'')
   \<and> toggleLove exampleEnv Loved unrecognizedController
       = Inl (Error ''No valid song is now playing'')"
proof -
  have a: "currentSong freshController = None"
    by (simp add: freshController_def Controller_new_def)
  have b: "currentSong scrobbledController =
             Some (announcedSong\<lparr>flags := (flags announcedSong)
                     \<lparr>isReadyToScrobble := True, isScrobbled := True\<rparr>\<rparr>)"
    by (simp add: scrobbledController_eq)
  have c: "currentSong unrecognizedController = Some (Song_new exampleReading)"
    by (simp add: unrecognizedController_eq)
  from a b c
    user_operations_fail [of freshController exampleEnv exampleEdits Loved]
    user_operations_fail [of scrobbledController exampleEnv exampleEdits Loved]
    user_operations_fail [of unrecognizedController exampleEnv exampleEdits Loved]
  show ?thesis by (simp add: song_defs)
qed

subsection \<open>Timers after the playback timer expired\<close>

text \<open>
  C10, as amended. While the playback timer is expired, \<open>updateTimers\<close> changes
  nothing but the debug log; so a duration update and a pipeline run
  (\<open>processSong\<close>) leave both timers as they are, and a reading of the current song
  leaves both targets as they are.
\<close>

theorem expired_timers_not_retargeted:
  assumes "Timer_isExpired (playbackTimer s)"
  shows "updateTimers env d s = debugLog ''Attempt to update expired timers'' LogWarn s
    \<and> (\<forall>s'. updateSongDuration env n s = Inr s' \<longrightarrow>
          playbackTimer s' = playbackTimer s \<and> replayDetectionTimer s' = replayDetectionTimer s)
    \<and> (\<forall>s'. processSong env s = Inr s' \<longrightarrow>
          playbackTimer s' = playbackTimer s \<and> replayDetectionTimer s' = replayDetectionTimer s)
    \<and> (\<forall>s'. processCurrentState env r s = Inr s' \<longrightarrow>
          target (playbackTimer s') = target (playbackTimer s)
          \<and> target (replayDetectionTimer s') = target (replayDetectionTimer s))"
  using assms updateTimers_expired updateSongDuration_expired processSong_expired
    processCurrentState_expired by blast

text \<open>
  On the example: the controller whose playback timer expired ten seconds ago.
\<close>

theorem expired_timers_not_retargeted_witness:
  "Timer_isExpired (playbackTimer expiredController)
   \<and> updateTimers exampleEnv (Some 300) expiredController
       = debugLog ''Attempt to update expired timers'' LogWarn expiredController
   \<and> playbackTimer (stateOr freshController (updateSongDuration exampleEnv 300 expiredController))
       = playbackTimer expiredController
   \<and> playbackTimer (stateOr freshController (processSong exampleEnv expiredController))
       = playbackTimer expiredController
   \<and> target (replayDetectionTimer
        (stateOr freshController (processCurrentState exampleEnv longerReading expiredController)))
       = Some 240"
proof -
  have h: "Timer_isExpired (playbackTimer expiredController)"
    by (simp add: expiredController_eq Timer_isExpired_def)
  have song: "currentSong expiredController = Some announcedSong"
    by (simp add: expiredController_eq playingController_eq)
  have ns: "\<not> isSkipped (flags announcedSong)" by (simp add: announcedSong_def)
  have t: "target (replayDetectionTimer expiredController) = Some 240"
    by (simp add: expiredController_eq)
  obtain s1 where s1: "updateSongDuration exampleEnv 300 expiredController = Inr s1"
    using updateSongDuration_Inr [OF song] by simp
  obtain s2 where s2: "processSong exampleEnv expiredController = Inr s2"
    using processSong_Inr_song [OF song] by blast
  obtain s3 where s3: "processCurrentState exampleEnv longerReading expiredController = Inr s3"
    using processCurrentState_Inr [OF song ns] by blast
  from expired_timers_not_retargeted [OF h, of exampleEnv "Some 300" 300 longerReading] h s1 s2 s3 t
  show ?thesis by (simp add: stateOr_def)
qed

text \<open>
  C10 as first stated has no timer re-targeted by a later pipeline run. A pipeline run
  on the same track is started by \<open>setUserSongData\<close> (and \<open>resetSongData\<close>), which
  first unprocesses the track: "Clearing playback timer destination time". Here the
  playback timer has expired and the scrobble failed; the user then edits the track, and
  both targets are cleared.
\<close>

theorem rerun_clears_targets_counterexample:
  "Timer_isExpired (playbackTimer failedController)
   \<and> target (playbackTimer failedController) = Some 120
   \<and> target (replayDetectionTimer failedController) = Some 240
   \<and> target (playbackTimer
        (after unrecognizingEnv failedController (SetUserSongData exampleEdits))) = None
   \<and> target (replayDetectionTimer
        (after unrecognizingEnv failedController (SetUserSongData exampleEdits))) = None"
  by (simp add: failedController_eq expiredController_eq playingController_eq
      example_defs unrecognizingEnv_def exampleEdits_def method_defs timer_defs song_defs Let_def)

end
